theory Spec2Isabelle
  imports Complex_Main "HOL-Library.Multiset"
begin

section \<open>Curve math\<close>

text \<open>
  JavaScript numbers are modelled by their mathematical value: a finite number is a
  real (rounding and overflow of doubles are not modelled, and the sign of zero is not
  distinguished), and the three non-finite results a division can produce are explicit
  constructors, so that a division by zero is a branch of the model and not HOL's
  \<open>x / 0 = 0\<close>.
\<close>

datatype jsnum = Finite real | PlusInf | MinusInf | NotANumber

definition jdiv :: "real \<Rightarrow> real \<Rightarrow> jsnum" where
  "jdiv a b =
     (if b \<noteq> 0 then Finite (a / b)
      else if a = 0 then NotANumber
      else if 0 < a then PlusInf else MinusInf)"

fun jneg :: "jsnum \<Rightarrow> jsnum" where
  "jneg (Finite a) = Finite (- a)"
| "jneg PlusInf = MinusInf"
| "jneg MinusInf = PlusInf"
| "jneg NotANumber = NotANumber"

fun jmul :: "jsnum \<Rightarrow> jsnum \<Rightarrow> jsnum" where
  "jmul NotANumber y = NotANumber"
| "jmul x NotANumber = NotANumber"
| "jmul (Finite a) (Finite b) = Finite (a * b)"
| "jmul (Finite a) y = (if a = 0 then NotANumber else if 0 < a then y else jneg y)"
| "jmul x (Finite b) = (if b = 0 then NotANumber else if 0 < b then x else jneg x)"
| "jmul PlusInf y = y"
| "jmul MinusInf y = jneg y"

fun jadd :: "jsnum \<Rightarrow> jsnum \<Rightarrow> jsnum" where
  "jadd NotANumber y = NotANumber"
| "jadd x NotANumber = NotANumber"
| "jadd (Finite a) (Finite b) = Finite (a + b)"
| "jadd (Finite a) y = y"
| "jadd x (Finite b) = x"
| "jadd x y = (if x = y then x else NotANumber)"

text \<open>A control point \<open>{in, out}\<close> of a response curve (\<open>in\<close> is a keyword of Isabelle).\<close>

record point =
  pin :: real
  pout :: real

text \<open>
  The scan of \<open>interpolateCurve\<close> over the sorted points: \<open>lower\<close> is the last point
  seen at or below the input, \<open>upper\<close> the first point at or above it, where the loop
  stops.
\<close>

fun bracket :: "real \<Rightarrow> point list \<Rightarrow> point \<times> point \<Rightarrow> point \<times> point" where
  "bracket input [] (lower, upper) = (lower, upper)"
| "bracket input (p # ps) (lower, upper) =
     (let lower' = (if pin p \<le> input then p else lower)
      in if pin p \<ge> input then (lower', p) else bracket input ps (lower', upper))"

text \<open>
  \<open>interpolateCurve(input, points)\<close>. A missing point list (\<open>null\<close>, \<open>undefined\<close>)
  takes the same first branch as the empty list. \<open>Array.prototype.sort\<close> is stable, as
  is \<open>sort_key\<close>; the comparator \<open>a.in - b.in\<close> orders by \<open>in\<close>.
\<close>

definition interpolateCurve :: "real \<Rightarrow> point list \<Rightarrow> jsnum" where
  "interpolateCurve input points =
     (if points = [] then Finite input
      else
        let sorted = sort_key pin points;
            (lower, upper) = bracket input sorted (\<lparr>pin = 0, pout = 0\<rparr>, \<lparr>pin = 1, pout = 1\<rparr>)
        in
          if input \<le> pin (hd sorted)
          then jmul (Finite (pout (hd sorted))) (jdiv input (pin (hd sorted)))
          else if input \<ge> pin (last sorted)
          then
            (let lastPoint = last sorted;
                 remaining = input - pin lastPoint;
                 remainingRange = 1 - pin lastPoint;
                 outputRemaining = 1 - pout lastPoint
             in jadd (Finite (pout lastPoint))
                  (jmul (jdiv remaining remainingRange) (Finite outputRemaining)))
          else if pin lower = pin upper then Finite (pout lower)
          else
            (let t = (input - pin lower) / (pin upper - pin lower)
             in Finite (pout lower + t * (pout upper - pout lower))))"

section \<open>Strings and paths\<close>

text \<open>
  A string is a list of characters. \<open>path.split('.')\<close> cuts at every dot and always
  returns at least one segment; \<open>parts.join('.')\<close> puts dots back between segments;
  \<open>.pop()\<close> on the split result is \<open>last\<close>, and \<open>slice(0, i)\<close> is \<open>take i\<close>.
\<close>

fun splitDot :: "string \<Rightarrow> string list" where
  "splitDot [] = [[]]"
| "splitDot (c # cs) =
     (if c = CHR ''.'' then [] # splitDot cs
      else (case splitDot cs of [] \<Rightarrow> [[c]] | seg # segs \<Rightarrow> (c # seg) # segs))"

fun joinDot :: "string list \<Rightarrow> string" where
  "joinDot [] = []"
| "joinDot [seg] = seg"
| "joinDot (seg # segs) = seg @ CHR ''.'' # joinDot segs"

definition digitChar :: "nat \<Rightarrow> char" where
  "digitChar d = char_of (48 + d)"

text \<open>The decimal text of a non-negative integer, as a number reads when used as a property key.\<close>

fun showNat :: "nat \<Rightarrow> string" where
  "showNat n = (if n < 10 then [digitChar n] else showNat (n div 10) @ [digitChar (n mod 10)])"

declare showNat.simps [simp del]

section \<open>Values and objects\<close>

text \<open>
  The values the settings store holds are JSON-like. An object is the list of its own
  properties in enumeration order. Properties inherited from \<open>Object.prototype\<close>
  (\<open>constructor\<close>, \<open>toString\<close>, ...) are not modelled: the keys the editor uses are
  tree paths, option names, instance numbers and the four setting names.
\<close>

datatype jsval =
    JUndefined
  | JNull
  | JBool bool
  | JNum jsnum
  | JStr string
  | JArr "jsval list"
  | JObj "(string \<times> jsval) list"

type_synonym obj = "(string \<times> jsval) list"

datatype error = TypeError | NotModelled

fun truthy :: "jsval \<Rightarrow> bool" where
  "truthy JUndefined = False"
| "truthy JNull = False"
| "truthy (JBool b) = b"
| "truthy (JNum n) = (n \<noteq> NotANumber \<and> n \<noteq> Finite 0)"
| "truthy (JStr s) = (s \<noteq> [])"
| "truthy (JArr xs) = True"
| "truthy (JObj kvs) = True"

text \<open>
  A key that is the canonical decimal text of an integer below \<open>2^32 - 1\<close> is an array
  index; an object enumerates its array-index keys first, in ascending order, and its
  other keys after them in the order of their creation.
\<close>

definition isDecDigit :: "char \<Rightarrow> bool" where
  "isDecDigit c = (48 \<le> (of_char c :: nat) \<and> (of_char c :: nat) \<le> 57)"

definition decValue :: "string \<Rightarrow> nat" where
  "decValue s = foldl (\<lambda>acc c. acc * 10 + ((of_char c :: nat) - 48)) 0 s"

definition arrayIndex :: "string \<Rightarrow> nat option" where
  "arrayIndex k =
     (if k \<noteq> [] \<and> list_all isDecDigit k \<and> (k = ''0'' \<or> hd k \<noteq> CHR ''0'')
         \<and> decValue k < 4294967295
      then Some (decValue k) else None)"

definition keyBefore :: "string \<Rightarrow> string \<Rightarrow> bool" where
  "keyBefore k k' =
     (case arrayIndex k of
        None \<Rightarrow> False
      | Some i \<Rightarrow> (case arrayIndex k' of None \<Rightarrow> True | Some j \<Rightarrow> i < j))"

text \<open>\<open>o[k] = v\<close> on an object: an existing property keeps its place, a new one is enumerated
  where its key belongs.\<close>

fun put :: "string \<Rightarrow> 'v \<Rightarrow> (string \<times> 'v) list \<Rightarrow> (string \<times> 'v) list" where
  "put k v [] = [(k, v)]"
| "put k v ((k', v') # kvs) =
     (if k' = k then (k, v) # kvs
      else if keyBefore k k' then (k, v) # (k', v') # kvs
      else (k', v') # put k v kvs)"

text \<open>
  \<open>x[k]\<close> read on a value that is neither \<open>undefined\<close> nor \<open>null\<close> (on those the read
  throws; each call site below either tests the value first, as the source does, or
  returns the \<open>TypeError\<close>).
\<close>

fun getProp :: "jsval \<Rightarrow> string \<Rightarrow> jsval" where
  "getProp (JObj kvs) k = (case map_of kvs k of Some v \<Rightarrow> v | None \<Rightarrow> JUndefined)"
| "getProp (JArr xs) k =
     (if k = ''length'' then JNum (Finite (real (length xs)))
      else (case arrayIndex k of
              Some i \<Rightarrow> (if i < length xs then xs ! i else JUndefined)
            | None \<Rightarrow> JUndefined))"
| "getProp (JStr s) k =
     (if k = ''length'' then JNum (Finite (real (length s)))
      else (case arrayIndex k of
              Some i \<Rightarrow> (if i < length s then JStr [s ! i] else JUndefined)
            | None \<Rightarrow> JUndefined))"
| "getProp v k = JUndefined"

text \<open>
  \<open>x > 0\<close>. The operand is converted to a number; the conversion of a string, an array
  or an object is outside the model.
\<close>

fun greaterThanZero :: "jsval \<Rightarrow> error + bool" where
  "greaterThanZero (JNum (Finite a)) = Inr (0 < a)"
| "greaterThanZero (JNum PlusInf) = Inr True"
| "greaterThanZero (JNum n) = Inr False"
| "greaterThanZero (JBool b) = Inr b"
| "greaterThanZero JUndefined = Inr False"
| "greaterThanZero JNull = Inr False"
| "greaterThanZero v = Inl NotModelled"

section \<open>Settings store\<close>

text \<open>
  \<open>userSettings\<close>: one object per device class. Every assignment to \<open>userSettings\<close>
  is an object literal with the three keys, and \<open>loadControlSettings\<close> may add an object
  under a further device type. \<open>keyboard\<close> maps a path to a settings record; \<open>joystick\<close>
  maps an instance number to such a mapping. \<open>gamepad\<close> is written by \<open>setUserSetting\<close>
  as \<open>joystick\<close> is, and read and written by the converter as \<open>keyboard\<close> is.
\<close>

record user_settings =
  keyboard :: obj
  gamepad :: obj
  joystick :: obj
  extraDevices :: "(string \<times> obj) list"

definition emptySettings :: user_settings where
  "emptySettings = \<lparr>keyboard = [], gamepad = [], joystick = [], extraDevices = []\<rparr>"

text \<open>\<open>userSettings[deviceType]\<close>, read and written.\<close>

definition deviceSettings :: "user_settings \<Rightarrow> string \<Rightarrow> obj option" where
  "deviceSettings us deviceType =
     (if deviceType = ''keyboard'' then Some (keyboard us)
      else if deviceType = ''gamepad'' then Some (gamepad us)
      else if deviceType = ''joystick'' then Some (joystick us)
      else map_of (extraDevices us) deviceType)"

definition setDeviceSettings :: "user_settings \<Rightarrow> string \<Rightarrow> obj \<Rightarrow> user_settings" where
  "setDeviceSettings us deviceType ob =
     (if deviceType = ''keyboard'' then us\<lparr>keyboard := ob\<rparr>
      else if deviceType = ''gamepad'' then us\<lparr>gamepad := ob\<rparr>
      else if deviceType = ''joystick'' then us\<lparr>joystick := ob\<rparr>
      else us\<lparr>extraDevices := put deviceType ob (extraDevices us)\<rparr>)"

text \<open>
  The module-level variables the store operations read and write. The debounced sync to
  the backend that \<open>setUserSetting\<close> schedules is a timer and is not part of the state.
\<close>

record editor_state =
  userSettings :: user_settings
  currentDeviceType :: string
  currentGamepadInstance :: nat
  currentJoystickInstance :: nat
  hasUnsavedChanges :: bool

definition initialState :: editor_state where
  "initialState =
     \<lparr>userSettings = emptySettings, currentDeviceType = ''keyboard'',
      currentGamepadInstance = 1, currentJoystickInstance = 1, hasUnsavedChanges = False\<rparr>"

text \<open>The local \<open>settings\<close> of \<open>getUserSetting\<close>: the bucket of the current device and
  instance, or \<open>{}\<close>.\<close>

definition currentSettings :: "editor_state \<Rightarrow> jsval" where
  "currentSettings st =
     (if currentDeviceType st = ''joystick'' then
        (let b = getProp (JObj (joystick (userSettings st))) (showNat (currentJoystickInstance st))
         in if truthy b then b else JObj [])
      else if currentDeviceType st = ''gamepad'' then
        (let b = getProp (JObj (gamepad (userSettings st))) (showNat (currentGamepadInstance st))
         in if truthy b then b else JObj [])
      else
        (case deviceSettings (userSettings st) (currentDeviceType st) of
           Some ob \<Rightarrow> JObj ob
         | None \<Rightarrow> JObj []))"

definition getUserSetting :: "editor_state \<Rightarrow> string \<Rightarrow> string \<Rightarrow> jsval \<Rightarrow> jsval" where
  "getUserSetting st path settingName defaultValue =
     (let settings = currentSettings st;
          pathSettings = getProp settings path
      in if truthy pathSettings \<and> getProp pathSettings settingName \<noteq> JUndefined
         then getProp pathSettings settingName
         else
           (let optionName = last (splitDot path)
            in if optionName \<noteq> path
               then
                 (let optionSettings = getProp settings optionName
                  in if truthy optionSettings \<and> getProp optionSettings settingName \<noteq> JUndefined
                     then getProp optionSettings settingName
                     else defaultValue)
               else defaultValue))"

record inherited_setting =
  "value" :: jsval
  inherited :: bool
  inheritedFrom :: "string option"

text \<open>
  The loop of \<open>getUserSettingWithInheritance\<close>, \<open>for (i = pathParts.length - 1; i >= 1; i--)\<close>:
  \<open>walkParents st parts settingName i\<close> runs it from index \<open>i\<close> downwards.
\<close>

fun walkParents :: "editor_state \<Rightarrow> string list \<Rightarrow> string \<Rightarrow> nat \<Rightarrow> inherited_setting option" where
  "walkParents st pathParts settingName 0 = None"
| "walkParents st pathParts settingName (Suc j) =
     (let parentPath = joinDot (take (Suc j) pathParts);
          parentValue = getUserSetting st parentPath settingName JUndefined
      in if parentValue \<noteq> JUndefined
         then Some \<lparr>value = parentValue, inherited = True, inheritedFrom = Some (pathParts ! j)\<rparr>
         else walkParents st pathParts settingName j)"

definition getUserSettingWithInheritance ::
  "editor_state \<Rightarrow> string \<Rightarrow> string \<Rightarrow> jsval \<Rightarrow> inherited_setting" where
  "getUserSettingWithInheritance st path settingName defaultValue =
     (let directValue = getUserSetting st path settingName JUndefined
      in if directValue \<noteq> JUndefined
         then \<lparr>value = directValue, inherited = False, inheritedFrom = None\<rparr>
         else
           (let pathParts = splitDot path
            in case walkParents st pathParts settingName (length pathParts - 1) of
                 Some r \<Rightarrow> r
               | None \<Rightarrow> \<lparr>value = defaultValue, inherited = False, inheritedFrom = None\<rparr>))"

text \<open>
  \<open>x[k] = v\<close>, returning the updated \<open>x\<close>. On \<open>undefined\<close> and \<open>null\<close> the assignment
  throws. On another primitive it throws in strict mode and is ignored otherwise; the
  model takes the strict reading of a module, and no statement below depends on it. An
  assignment to a property of an array is outside the model.
\<close>

fun assign :: "jsval \<Rightarrow> string \<Rightarrow> jsval \<Rightarrow> error + jsval" where
  "assign (JObj kvs) k v = Inr (JObj (put k v kvs))"
| "assign (JArr xs) k v = Inl NotModelled"
| "assign x k v = Inl TypeError"

text \<open>
  The last three statements of each branch of \<open>setUserSetting\<close>, on the object \<open>ob\<close> that
  maps paths to records: create the record if no truthy one is there, then set the field.
\<close>

definition setRecordField :: "obj \<Rightarrow> string \<Rightarrow> string \<Rightarrow> jsval \<Rightarrow> error + obj" where
  "setRecordField ob path settingName v =
     (let ob' = (if truthy (getProp (JObj ob) path) then ob else put path (JObj []) ob)
      in case assign (getProp (JObj ob') path) settingName v of
           Inl e \<Rightarrow> Inl e
         | Inr r \<Rightarrow> Inr (put path r ob'))"

text \<open>The instance branch: \<open>dev[instance]\<close> is created when falsy, then written as above.\<close>

definition setInstanceField ::
  "obj \<Rightarrow> nat \<Rightarrow> string \<Rightarrow> string \<Rightarrow> jsval \<Rightarrow> error + obj" where
  "setInstanceField dev inst path settingName v =
     (let key = showNat inst;
          dev' = (if truthy (getProp (JObj dev) key) then dev else put key (JObj []) dev)
      in case getProp (JObj dev') key of
           JObj bucket \<Rightarrow>
             (case setRecordField bucket path settingName v of
                Inl e \<Rightarrow> Inl e
              | Inr bucket' \<Rightarrow> Inr (put key (JObj bucket') dev'))
         | JArr xs \<Rightarrow> Inl NotModelled
         | _ \<Rightarrow> Inl TypeError)"

definition setUserSetting ::
  "editor_state \<Rightarrow> string \<Rightarrow> string \<Rightarrow> jsval \<Rightarrow> error + editor_state" where
  "setUserSetting st path settingName v =
     (let us = userSettings st
      in case
           (if currentDeviceType st = ''joystick'' then
              (case setInstanceField (joystick us) (currentJoystickInstance st) path settingName v of
                 Inl e \<Rightarrow> Inl e
               | Inr dev \<Rightarrow> Inr (us\<lparr>joystick := dev\<rparr>))
            else if currentDeviceType st = ''gamepad'' then
              (case setInstanceField (gamepad us) (currentGamepadInstance st) path settingName v of
                 Inl e \<Rightarrow> Inl e
               | Inr dev \<Rightarrow> Inr (us\<lparr>gamepad := dev\<rparr>))
            else
              (case deviceSettings us (currentDeviceType st) of
                 None \<Rightarrow> Inl TypeError
               | Some ob \<Rightarrow>
                   (case setRecordField ob path settingName v of
                      Inl e \<Rightarrow> Inl e
                    | Inr ob' \<Rightarrow> Inr (setDeviceSettings us (currentDeviceType st) ob'))))
         of
           Inl e \<Rightarrow> Inl e
         | Inr us' \<Rightarrow> Inr (st\<lparr>userSettings := us', hasUnsavedChanges := True\<rparr>))"

text \<open>
  Vocabulary for the statements about inheritance. The store \<^emph>\<open>has the setting at\<close> a key
  when the current bucket holds a truthy record under that key and the record defines
  the setting: the test \<open>getUserSetting\<close> makes for the path and for its last segment.
  The keys \<open>getUserSettingWithInheritance\<close> consults for a path are the path, its
  ancestor paths and, by the short-name fallback, its segments.
\<close>

definition hasSettingAt :: "editor_state \<Rightarrow> string \<Rightarrow> string \<Rightarrow> bool" where
  "hasSettingAt st k settingName =
     (truthy (getProp (currentSettings st) k)
      \<and> getProp (getProp (currentSettings st) k) settingName \<noteq> JUndefined)"

definition consultedKeys :: "string \<Rightarrow> string list" where
  "consultedKeys path =
     (let pathParts = splitDot path
      in map (\<lambda>i. joinDot (take i pathParts)) [1..<Suc (length pathParts)] @ pathParts)"

section \<open>Format converter: store to flat list\<close>

text \<open>An element of the array that \<open>generateControlOptionsXml\<close> returns.\<close>

record control_option =
  name :: string
  invert :: jsval
  exponent :: jsval
  curve :: jsval

text \<open>\<open>Object.entries(x)\<close>: own enumerable properties, array-index keys of arrays and
  strings included.\<close>

fun entries :: "jsval \<Rightarrow> (string \<times> jsval) list" where
  "entries (JObj kvs) = kvs"
| "entries (JArr xs) = zip (map showNat [0..<length xs]) xs"
| "entries (JStr s) = zip (map showNat [0..<length s]) (map (\<lambda>c. JStr [c]) s)"
| "entries v = []"

text \<open>
  \<open>curveMode === 'curve' && pathSettings.curve && pathSettings.curve.points
     && pathSettings.curve.points.length > 0\<close>, as the truth value the source tests.
\<close>

definition hasCurveOf :: "jsval \<Rightarrow> jsval \<Rightarrow> error + bool" where
  "hasCurveOf curveMode curveValue =
     (if curveMode \<noteq> JStr ''curve'' then Inr False
      else if \<not> truthy curveValue then Inr False
      else if \<not> truthy (getProp curveValue ''points'') then Inr False
      else greaterThanZero (getProp (getProp curveValue ''points'') ''length''))"

text \<open>
  The body of the loop over \<open>Object.entries(settings)\<close>: \<open>Inr None\<close> is \<open>continue\<close>,
  \<open>Inr (Some e)\<close> the element pushed. Reading a field of an \<open>undefined\<close> or \<open>null\<close>
  \<open>pathSettings\<close> throws.
\<close>

definition controlOption :: "string \<Rightarrow> jsval \<Rightarrow> error + control_option option" where
  "controlOption path pathSettings =
     (if pathSettings = JUndefined \<or> pathSettings = JNull then Inl TypeError
      else
        let optionName = last (splitDot path);
            curveMode = (if truthy (getProp pathSettings ''curveMode'')
                         then getProp pathSettings ''curveMode'' else JStr ''exponent'');
            hasInvert = (getProp pathSettings ''invert'' \<noteq> JUndefined);
            hasExponent = (curveMode = JStr ''exponent''
                           \<and> getProp pathSettings ''exponent'' \<noteq> JUndefined
                           \<and> getProp pathSettings ''exponent'' \<noteq> JNum (Finite 1))
        in case hasCurveOf curveMode (getProp pathSettings ''curve'') of
             Inl e \<Rightarrow> Inl e
           | Inr hasCurve \<Rightarrow>
               if \<not> hasInvert \<and> \<not> hasExponent \<and> \<not> hasCurve then Inr None
               else Inr (Some
                 \<lparr>name = optionName,
                  invert = (if hasInvert then getProp pathSettings ''invert'' else JUndefined),
                  exponent = (if hasExponent then getProp pathSettings ''exponent''
                              else if hasCurve then JNum (Finite 1) else JUndefined),
                  curve = (if hasCurve then getProp pathSettings ''curve'' else JUndefined)\<rparr>))"

fun collectOptions :: "(string \<times> jsval) list \<Rightarrow> error + control_option list" where
  "collectOptions [] = Inr []"
| "collectOptions ((path, pathSettings) # rest) =
     (case controlOption path pathSettings of
        Inl e \<Rightarrow> Inl e
      | Inr None \<Rightarrow> collectOptions rest
      | Inr (Some opt) \<Rightarrow>
          (case collectOptions rest of
             Inl e \<Rightarrow> Inl e
           | Inr opts \<Rightarrow> Inr (opt # opts)))"

text \<open>The local \<open>settings\<close> of \<open>generateControlOptionsXml\<close>: only \<open>'joystick'\<close> looks at the
  instance.\<close>

definition settingsFor :: "user_settings \<Rightarrow> string \<Rightarrow> nat \<Rightarrow> jsval" where
  "settingsFor us deviceType inst =
     (if deviceType = ''joystick'' then
        (let b = getProp (JObj (joystick us)) (showNat inst)
         in if truthy b then b else JObj [])
      else
        (case deviceSettings us deviceType of
           Some ob \<Rightarrow> JObj ob
         | None \<Rightarrow> JObj []))"

text \<open>\<open>generateControlOptionsXml(deviceType, instance)\<close>; \<open>Inr None\<close> is the \<open>null\<close> result.\<close>

definition generateControlOptionsXml ::
  "user_settings \<Rightarrow> string \<Rightarrow> nat \<Rightarrow> error + control_option list option" where
  "generateControlOptionsXml us deviceType inst =
     (let settings = settingsFor us deviceType inst
      in if entries settings = [] then Inr None
         else
           (case collectOptions (entries settings) of
              Inl e \<Rightarrow> Inl e
            | Inr controlOptions \<Rightarrow>
                if controlOptions = [] then Inr None else Inr (Some controlOptions)))"

text \<open>
  Vocabulary for the statement about the gamepad store: the shape \<open>setUserSetting\<close> gives
  \<open>userSettings.gamepad\<close>, instance-number keys over buckets that map paths to record objects.
\<close>

fun isObject :: "jsval \<Rightarrow> bool" where
  "isObject (JObj kvs) = True"
| "isObject v = False"

fun bucketOfRecords :: "jsval \<Rightarrow> bool" where
  "bucketOfRecords (JObj recs) = list_all (\<lambda>kv. isObject (snd kv)) recs"
| "bucketOfRecords v = False"

definition instanceKeyed :: "obj \<Rightarrow> bool" where
  "instanceKeyed dev =
     list_all (\<lambda>kv. fst kv \<noteq> [] \<and> list_all isDecDigit (fst kv) \<and> bucketOfRecords (snd kv)) dev"

section \<open>Hierarchy builder\<close>

text \<open>
  \<open>parseInt(s)\<close> with no radix: leading white space is skipped, a sign is read, a
  \<open>0x\<close>/\<open>0X\<close> prefix selects radix 16, and the longest run of digits of the radix is the
  value, whatever follows it; no digit at all gives \<open>NaN\<close> (\<open>None\<close>). Characters are code
  units below 256, of which the white space ones are TAB, LF, VT, FF, CR, SP and NBSP. The
  value is the mathematical integer the digits denote.
\<close>

definition isWhiteSpace :: "char \<Rightarrow> bool" where
  "isWhiteSpace c = ((of_char c :: nat) \<in> {9, 10, 11, 12, 13, 32, 160})"

definition digitValue :: "char \<Rightarrow> nat" where
  "digitValue c =
     (let n = (of_char c :: nat)
      in if 48 \<le> n \<and> n \<le> 57 then n - 48
         else if 97 \<le> n \<and> n \<le> 122 then n - 87
         else if 65 \<le> n \<and> n \<le> 90 then n - 55
         else 36)"

definition parseInt :: "string \<Rightarrow> int option" where
  "parseInt s =
     (let s1 = dropWhile isWhiteSpace s;
          negative = (s1 \<noteq> [] \<and> hd s1 = CHR ''-'');
          s2 = (if s1 \<noteq> [] \<and> (hd s1 = CHR ''+'' \<or> hd s1 = CHR ''-'') then tl s1 else s1);
          hex = (take 2 s2 = ''0x'' \<or> take 2 s2 = ''0X'');
          radix = (if hex then 16 else 10);
          s3 = (if hex then drop 2 s2 else s2);
          z = takeWhile (\<lambda>c. digitValue c < radix) s3
      in if z = [] then None
         else Some ((if negative then - 1 else 1)
                    * int (foldl (\<lambda>acc c. acc * radix + digitValue c) 0 z)))"

text \<open>The four results of \<open>parseVisibility\<close>: \<open>null\<close>, \<open>'inherit'\<close>, \<open>false\<close>, \<open>true\<close>.\<close>

datatype visibility = VisNull | VisInherit | VisFalse | VisTrue

text \<open>\<open>getAttribute\<close> returns \<open>null\<close> (\<open>None\<close>) for an attribute that is not set.\<close>

definition parseVisibility :: "string option \<Rightarrow> visibility" where
  "parseVisibility attr =
     (case attr of
        None \<Rightarrow> VisNull
      | Some a \<Rightarrow>
          (case parseInt a of
             None \<Rightarrow> VisNull
           | Some val \<Rightarrow>
               if val = - 1 then VisInherit
               else if val = 0 then VisFalse
               else if val = 1 then VisTrue
               else VisNull))"

text \<open>
  The element tree that \<open>DOMParser.parseFromString\<close> returns, given by its root element.
  For text that is not well-formed the browser returns an error document, which holds
  whatever elements the browser keeps; the parsing of the text itself is not modelled.
\<close>

datatype xml = Element (xtag: string) (xattrs: "(string \<times> string) list") (xchildren: "xml list")

definition getAttribute :: "xml \<Rightarrow> string \<Rightarrow> string option" where
  "getAttribute el a = map_of (xattrs el) a"

text \<open>\<open>querySelectorAll(':scope > tag')\<close> and \<open>querySelectorAll('tag')\<close>, in document order.\<close>

definition childElements :: "xml \<Rightarrow> string \<Rightarrow> xml list" where
  "childElements el t = filter (\<lambda>k. xtag k = t) (xchildren el)"

fun descendants :: "xml \<Rightarrow> xml list" where
  "descendants (Element t attrs kids) = concat (map (\<lambda>k. k # descendants k) kids)"

definition descendantElements :: "xml \<Rightarrow> string \<Rightarrow> xml list" where
  "descendantElements el t = filter (\<lambda>k. xtag k = t) (descendants el)"

definition documentElements :: "xml \<Rightarrow> string \<Rightarrow> xml list" where
  "documentElements doc t = filter (\<lambda>k. xtag k = t) (doc # descendants doc)"

text \<open>
  \<open>parseFloat\<close> is a parameter \<open>pf\<close> of the builder. \<open>parseFloat(null)\<close> reads the text
  \<open>"null"\<close> and is \<open>NaN\<close>.
\<close>

definition attrFloat :: "(string \<Rightarrow> jsnum) \<Rightarrow> string option \<Rightarrow> jsnum" where
  "attrFloat pf a = (case a of None \<Rightarrow> NotANumber | Some s \<Rightarrow> pf s)"

text \<open>A curve of the tree. A coordinate is a number, or \<open>null\<close> (\<open>None\<close>) after a copy through
  JSON, which writes \<open>NaN\<close> and the infinities as \<open>null\<close>.\<close>

record tree_curve =
  curveReset :: bool
  curvePoints :: "(jsnum option \<times> jsnum option) list"

text \<open>The fields \<open>parseOptionGroup\<close> gives a node beside its name, label, path, device type
  and children: the visibility flags and the default invert, exponent and curve.\<close>

record node_attrs =
  showInvert :: visibility
  showCurve :: visibility
  showSensitivity :: visibility
  invertDefault :: bool
  invertCvar :: "string option"
  exponentDefault :: "jsnum option"
  curveDefault :: "tree_curve option"

text \<open>
  A node of an option tree. A field the source leaves out of an object literal is
  \<open>None\<close> (or \<open>False\<close> for the flags \<open>isSection\<close> and \<open>disabled\<close>, which the code only tests
  for truth); \<open>None\<close> also stands for \<open>null\<close>.
\<close>

datatype node = Node
  (nodeName: string)
  (nodeLabel: string)
  (nodePath: "string option")
  (nodeDeviceType: string)
  (nodeAttrs: "node_attrs option")
  (nodeChildren: "node list")
  (sectionType: "string option")
  (isSection: bool)
  (disabled: bool)
  (disabledReason: "string option")
  (instances: "int option")
  (sensitivityMin: "jsnum option")
  (sensitivityMax: "jsnum option")

definition parseCurve :: "(string \<Rightarrow> jsnum) \<Rightarrow> xml \<Rightarrow> tree_curve" where
  "parseCurve pf curveElement =
     (if getAttribute curveElement ''reset'' = Some ''1'' then \<lparr>curveReset = True, curvePoints = []\<rparr>
      else \<lparr>curveReset = False,
            curvePoints = map (\<lambda>pt. (Some (attrFloat pf (getAttribute pt ''in'')),
                               Some (attrFloat pf (getAttribute pt ''out''))))
                       (descendantElements curveElement ''point'')\<rparr>)"

text \<open>\<open>x || y\<close> on an attribute text: the text when set and not empty.\<close>

definition nonEmptyAttr :: "string option \<Rightarrow> string option" where
  "nonEmptyAttr a = (case a of Some s \<Rightarrow> (if s \<noteq> [] then Some s else None) | None \<Rightarrow> None)"

text \<open>\<open>parseFloat(x) || null\<close>: \<open>NaN\<close> and zero are falsy.\<close>

definition floatOrNull :: "jsnum \<Rightarrow> jsnum option" where
  "floatOrNull v = (if v = NotANumber \<or> v = Finite 0 then None else Some v)"

text \<open>
  \<open>parseOptionGroup(element, deviceType, parentPath)\<close>. The path of a child is the
  template \<open>`${parentPath}.${name}`\<close>, which prints a missing name as \<open>null\<close>; with a falsy
  parent path it is the name attribute itself, \<open>null\<close> when not set.
\<close>

fun parseOptionGroup :: "(string \<Rightarrow> jsnum) \<Rightarrow> xml \<Rightarrow> string \<Rightarrow> string option \<Rightarrow> node" where
  "parseOptionGroup pf (Element t attrs kids) deviceType parentPath =
     (let element = Element t attrs kids;
          path =
            (case nonEmptyAttr parentPath of
               Some pp \<Rightarrow>
                 Some (pp @ ''.'' @ (case getAttribute element ''name'' of
                                       Some n \<Rightarrow> n | None \<Rightarrow> ''null''))
             | None \<Rightarrow> getAttribute element ''name'')
      in Node
           (case nonEmptyAttr (getAttribute element ''name'') of Some n \<Rightarrow> n | None \<Rightarrow> ''root'')
           (case nonEmptyAttr (getAttribute element ''UILabel'') of
              Some l \<Rightarrow> l
            | None \<Rightarrow>
                (case nonEmptyAttr (getAttribute element ''name'') of
                   Some n \<Rightarrow> n | None \<Rightarrow> ''Unknown''))
           path
           deviceType
           (Some
             \<lparr>showInvert = parseVisibility (getAttribute element ''UIShowInvert''),
              showCurve = parseVisibility (getAttribute element ''UIShowCurve''),
              showSensitivity = parseVisibility (getAttribute element ''UIShowSensitivity''),
              invertDefault = (getAttribute element ''invert'' = Some ''1''),
              invertCvar = nonEmptyAttr (getAttribute element ''invert_cvar''),
              exponentDefault = floatOrNull (attrFloat pf (getAttribute element ''exponent'')),
              curveDefault =
                (case filter (\<lambda>k. xtag k = ''nonlinearity_curve'') kids of
                   [] \<Rightarrow> None
                 | curveElement # others \<Rightarrow> Some (parseCurve pf curveElement))\<rparr>)
           (map (\<lambda>child. parseOptionGroup pf child deviceType path)
              (filter (\<lambda>k. xtag k = ''optiongroup'') kids))
           None False False None None None None)"

section \<open>Display transformer\<close>

text \<open>
  \<open>String.prototype.replace\<close> with the four patterns of \<open>markSectionType\<close>. None has the
  \<open>g\<close> flag, so each call replaces the leftmost match only. \<open>/\.inversion\./\<close> matches
  the first place where the text \<open>.inversion.\<close> occurs, \<open>/\.inversion$/\<close> the end of the
  path, \<open>/^inversion\./\<close> its start and \<open>/^inversion$/\<close> the whole path. The replacement
  text is taken as it is written (the caller's \<open>sensitivity_curves\<close> has no \<open>$\<close> pattern).
\<close>

fun replaceFirst :: "string \<Rightarrow> string \<Rightarrow> string \<Rightarrow> string" where
  "replaceFirst pat rep [] = (if pat = [] then rep else [])"
| "replaceFirst pat rep (c # cs) =
     (if take (length pat) (c # cs) = pat then rep @ drop (length pat) (c # cs)
      else c # replaceFirst pat rep cs)"

definition replaceAtEnd :: "string \<Rightarrow> string \<Rightarrow> string \<Rightarrow> string" where
  "replaceAtEnd pat rep s =
     (if length pat \<le> length s \<and> drop (length s - length pat) s = pat
      then take (length s - length pat) s @ rep else s)"

definition replaceAtStart :: "string \<Rightarrow> string \<Rightarrow> string \<Rightarrow> string" where
  "replaceAtStart pat rep s =
     (if take (length pat) s = pat then rep @ drop (length pat) s else s)"

definition replaceWhole :: "string \<Rightarrow> string \<Rightarrow> string \<Rightarrow> string" where
  "replaceWhole pat rep s = (if s = pat then rep else s)"

definition rewritePath :: "string \<Rightarrow> string \<Rightarrow> string" where
  "rewritePath pathPrefix p =
     replaceWhole ''inversion'' pathPrefix
       (replaceAtStart ''inversion.'' (pathPrefix @ ''.'')
         (replaceAtEnd ''.inversion'' (''.'' @ pathPrefix)
           (replaceFirst ''.inversion.'' (''.'' @ pathPrefix @ ''.'') p)))"

text \<open>
  \<open>markSectionType(node, sectionType, pathPrefix)\<close>: the path is rewritten when both the
  prefix and the path are truthy. The keyboard branch has its own copy without the prefix,
  which is this one at \<open>pathPrefix = null\<close>.
\<close>

fun markSectionType :: "node \<Rightarrow> string \<Rightarrow> string option \<Rightarrow> node" where
  "markSectionType (Node nm lb pa dt ats ch st sec dis dr ins smin smax) secType pathPrefix =
     Node nm lb
       (case nonEmptyAttr pathPrefix of
          Some pre \<Rightarrow>
            (case nonEmptyAttr pa of Some p \<Rightarrow> Some (rewritePath pre p) | None \<Rightarrow> pa)
        | None \<Rightarrow> pa)
       dt ats
       (map (\<lambda>child. markSectionType child secType pathPrefix) ch)
       (Some secType) sec dis dr ins smin smax"

definition disabledText :: string where
  "disabledText = ''Sensitivity curve settings do not persist properly in Star Citizen and have been temporarily disabled.''"

fun markDisabled :: "node \<Rightarrow> node" where
  "markDisabled (Node nm lb pa dt ats ch st sec dis dr ins smin smax) =
     Node nm lb pa dt ats (map markDisabled ch) st sec True (Some disabledText) ins smin smax"

text \<open>
  \<open>JSON.parse(JSON.stringify(node))\<close>: a structural copy in which a number that is
  \<open>NaN\<close> or infinite comes back as \<open>null\<close>.
\<close>

definition jsonNumber :: "jsnum option \<Rightarrow> jsnum option" where
  "jsonNumber v = (case v of Some (Finite a) \<Rightarrow> Some (Finite a) | _ \<Rightarrow> None)"

definition jsonAttrs :: "node_attrs \<Rightarrow> node_attrs" where
  "jsonAttrs a =
     a\<lparr>exponentDefault := jsonNumber (exponentDefault a),
       curveDefault :=
         map_option
           (\<lambda>c. c\<lparr>curvePoints := map (\<lambda>pt. (jsonNumber (fst pt), jsonNumber (snd pt))) (curvePoints c)\<rparr>)
           (curveDefault a)\<rparr>"

fun jsonClone :: "node \<Rightarrow> node" where
  "jsonClone (Node nm lb pa dt ats ch st sec dis dr ins smin smax) =
     Node nm lb pa dt (map_option jsonAttrs ats) (map jsonClone ch) st sec dis dr ins
       (jsonNumber smin) (jsonNumber smax)"

text \<open>Assignments to single fields of a node.\<close>

fun setName :: "string \<Rightarrow> node \<Rightarrow> node" where
  "setName v (Node nm lb pa dt ats ch st sec dis dr ins smin smax) =
     Node v lb pa dt ats ch st sec dis dr ins smin smax"

fun setLabel :: "string \<Rightarrow> node \<Rightarrow> node" where
  "setLabel v (Node nm lb pa dt ats ch st sec dis dr ins smin smax) =
     Node nm v pa dt ats ch st sec dis dr ins smin smax"

fun setPath :: "string \<Rightarrow> node \<Rightarrow> node" where
  "setPath v (Node nm lb pa dt ats ch st sec dis dr ins smin smax) =
     Node nm lb (Some v) dt ats ch st sec dis dr ins smin smax"

fun setIsSection :: "bool \<Rightarrow> node \<Rightarrow> node" where
  "setIsSection v (Node nm lb pa dt ats ch st sec dis dr ins smin smax) =
     Node nm lb pa dt ats ch st v dis dr ins smin smax"

fun setDisabled :: "string \<Rightarrow> node \<Rightarrow> node" where
  "setDisabled reason (Node nm lb pa dt ats ch st sec dis dr ins smin smax) =
     Node nm lb pa dt ats ch st sec True (Some reason) ins smin smax"

text \<open>The two sections the gamepad and joystick branch builds from the inversion node
  (the keyboard branch builds the first one only).\<close>

definition inversionSection :: "node \<Rightarrow> node" where
  "inversionSection inversionNode =
     setIsSection True
       (setLabel ''@ui_COInversionSettings''
         (markSectionType (jsonClone inversionNode) ''inversion'' None))"

definition curvesSection :: "node \<Rightarrow> string \<Rightarrow> node" where
  "curvesSection inversionNode deviceType =
     markDisabled
       (setDisabled disabledText
         (setIsSection True
           (setPath ''sensitivity_curves''
             (setLabel (if deviceType = ''joystick'' then ''@ui_COMasterSensitivityCurvesJoystick''
                        else ''@ui_COMasterSensitivityCurvesThumb'')
               (setName ''sensitivity_curves''
                 (markSectionType (jsonClone inversionNode) ''curves''
                    (Some ''sensitivity_curves'')))))))"

text \<open>The node the transformer works on: \<open>master\<close>'s curve container when both are found,
  the raw root otherwise.\<close>

definition contentNodeOf :: "node \<Rightarrow> node" where
  "contentNodeOf rawData =
     (case find (\<lambda>c. nodeName c = ''master'') (nodeChildren rawData) of
        None \<Rightarrow> rawData
      | Some master \<Rightarrow>
          (case find (\<lambda>c. nodeName c = ''mouse_curves'' \<or> nodeName c = ''thumbstick_curves''
                          \<or> nodeName c = ''joystick_curves'') (nodeChildren master) of
             None \<Rightarrow> rawData
           | Some curvesNode \<Rightarrow> curvesNode))"

text \<open>\<open>rawData.instances || 1\<close>.\<close>

definition instancesOrOne :: "node \<Rightarrow> int" where
  "instancesOrOne rawData = (case instances rawData of Some i \<Rightarrow> (if i \<noteq> 0 then i else 1) | None \<Rightarrow> 1)"

definition transformToSCHierarchy :: "node option \<Rightarrow> string \<Rightarrow> node option" where
  "transformToSCHierarchy raw deviceType =
     (case raw of
        None \<Rightarrow> None
      | Some rawData \<Rightarrow>
          (let contentNode = contentNodeOf rawData
           in if deviceType = ''joystick'' \<or> deviceType = ''gamepad'' then
                (case find (\<lambda>c. nodeName c = ''inversion'') (nodeChildren contentNode) of
                   Some inversionNode \<Rightarrow>
                     Some (Node ''root''
                       (if deviceType = ''joystick'' then ''Joystick Controls'' else ''Gamepad Controls'')
                       (Some ''root'') deviceType None
                       [inversionSection inversionNode, curvesSection inversionNode deviceType]
                       None False False None
                       (Some (instancesOrOne rawData)) (sensitivityMin rawData) (sensitivityMax rawData))
                 | None \<Rightarrow> Some rawData)
              else
                (case find (\<lambda>c. nodeName c = ''inversion'') (nodeChildren contentNode) of
                   Some inversionNode \<Rightarrow>
                     Some (Node ''root'' ''Mouse Controls'' (Some ''root'') deviceType None
                       [inversionSection inversionNode]
                       None False False None
                       (Some (instancesOrOne rawData)) (sensitivityMin rawData) (sensitivityMax rawData))
                 | None \<Rightarrow> Some rawData)))"

section \<open>Loading the trees\<close>

text \<open>\<open>controlsData\<close>: one tree or \<open>null\<close> per device class.\<close>

record controls_data =
  keyboardTree :: "node option"
  gamepadTree :: "node option"
  joystickTree :: "node option"

text \<open>\<open>controlsData[deviceType]\<close>; a key other than the three reads \<open>undefined\<close>.\<close>

definition treeFor :: "controls_data \<Rightarrow> string \<Rightarrow> node option" where
  "treeFor cd deviceType =
     (if deviceType = ''keyboard'' then keyboardTree cd
      else if deviceType = ''gamepad'' then gamepadTree cd
      else if deviceType = ''joystick'' then joystickTree cd
      else None)"

definition setTreeFor :: "controls_data \<Rightarrow> string \<Rightarrow> node option \<Rightarrow> controls_data" where
  "setTreeFor cd deviceType t =
     (if deviceType = ''keyboard'' then cd\<lparr>keyboardTree := t\<rparr>
      else if deviceType = ''gamepad'' then cd\<lparr>gamepadTree := t\<rparr>
      else if deviceType = ''joystick'' then cd\<lparr>joystickTree := t\<rparr>
      else cd)"

definition getDefaultControlsData :: controls_data where
  "getDefaultControlsData =
     \<lparr>keyboardTree = Some (Node ''root'' ''Keyboard Settings'' None ''keyboard'' None []
                         None False False None None None None),
      gamepadTree = Some (Node ''root'' ''Gamepad Settings'' None ''gamepad'' None []
                         None False False None None None None),
      joystickTree = Some (Node ''root'' ''Joystick Settings'' None ''joystick'' None []
                         None False False None (Some 8) None None)\<rparr>"

text \<open>The root that \<open>parseOptionTreesFromXml\<close> hands to the transformer: the parsed tree with
  \<open>instances\<close>, \<open>sensitivityMin\<close> and \<open>sensitivityMax\<close> set from the \<open>optiontree\<close> element.\<close>

fun setDeviceInfo :: "int \<Rightarrow> jsnum \<Rightarrow> jsnum \<Rightarrow> node \<Rightarrow> node" where
  "setDeviceInfo i lo hi (Node nm lb pa dt ats ch st sec dis dr ins smin smax) =
     Node nm lb pa dt ats ch st sec dis dr (Some i) (Some lo) (Some hi)"

definition rawTree :: "(string \<Rightarrow> jsnum) \<Rightarrow> xml \<Rightarrow> string \<Rightarrow> node" where
  "rawTree pf tree deviceType =
     setDeviceInfo
       (case getAttribute tree ''instances'' of
          None \<Rightarrow> 1
        | Some a \<Rightarrow> (case parseInt a of None \<Rightarrow> 1 | Some i \<Rightarrow> (if i \<noteq> 0 then i else 1)))
       (case floatOrNull (attrFloat pf (getAttribute tree ''UISensitivityMin'')) of
          None \<Rightarrow> Finite (1 / 100) | Some v \<Rightarrow> v)
       (case floatOrNull (attrFloat pf (getAttribute tree ''UISensitivityMax'')) of
          None \<Rightarrow> Finite 2 | Some v \<Rightarrow> v)
       (parseOptionGroup pf tree deviceType None)"

text \<open>The body of \<open>optionTrees.forEach\<close>: a tree whose \<open>type\<close> is one of the three keys of
  \<open>result\<close> replaces that entry; any other tree is skipped.\<close>

definition addOptionTree :: "(string \<Rightarrow> jsnum) \<Rightarrow> controls_data \<Rightarrow> xml \<Rightarrow> controls_data" where
  "addOptionTree pf result tree =
     (case nonEmptyAttr (getAttribute tree ''type'') of
        None \<Rightarrow> result
      | Some ty \<Rightarrow>
          if ty = ''keyboard'' \<or> ty = ''gamepad'' \<or> ty = ''joystick''
          then setTreeFor result ty (transformToSCHierarchy (Some (rawTree pf tree ty)) ty)
          else result)"

definition parseOptionTreesFromXml :: "(string \<Rightarrow> jsnum) \<Rightarrow> xml \<Rightarrow> controls_data" where
  "parseOptionTreesFromXml pf xmlDoc =
     foldl (addOptionTree pf)
       \<lparr>keyboardTree = None, gamepadTree = None, joystickTree = None\<rparr>
       (documentElements xmlDoc ''optiontree'')"

text \<open>
  \<open>loadControlsDataFromXml\<close>: \<open>None\<close> is the rejected \<open>invoke('get_all_binds_xml')\<close>, caught
  by the \<open>catch\<close> that installs the default data.
\<close>

definition loadControlsDataFromXml :: "(string \<Rightarrow> jsnum) \<Rightarrow> xml option \<Rightarrow> controls_data" where
  "loadControlsDataFromXml pf xmlContent =
     (case xmlContent of
        Some xmlDoc \<Rightarrow> parseOptionTreesFromXml pf xmlDoc
      | None \<Rightarrow> getDefaultControlsData)"

text \<open>\<open>findNodeByName(root, name)\<close>: \<open>null\<close> for an empty name, the root when its name
  matches, else the first hit among the children, searched in order.\<close>

fun findNodeByName :: "node \<Rightarrow> string \<Rightarrow> node option"
  and findInChildren :: "node list \<Rightarrow> string \<Rightarrow> node option" where
  "findNodeByName (Node nm lb pa dt ats ch st sec dis dr ins smin smax) target =
     (if target = [] then None
      else if nm = target then Some (Node nm lb pa dt ats ch st sec dis dr ins smin smax)
      else findInChildren ch target)"
| "findInChildren [] target = None"
| "findInChildren (child # rest) target =
     (case findNodeByName child target of
        Some found \<Rightarrow> Some found
      | None \<Rightarrow> findInChildren rest target)"

text \<open>Vocabulary for the statements about trees: the nodes of a tree in depth-first
  preorder.\<close>

fun preorder :: "node \<Rightarrow> node list" where
  "preorder (Node nm lb pa dt ats ch st sec dis dr ins smin smax) =
     Node nm lb pa dt ats ch st sec dis dr ins smin smax # concat (map preorder ch)"

text \<open>
  The rewrite in the specification's words, on the segments of the path: every segment
  equal to \<open>old\<close> becomes \<open>new\<close>.
\<close>

definition replaceSegment :: "string \<Rightarrow> string \<Rightarrow> string \<Rightarrow> string" where
  "replaceSegment old new p = joinDot (map (\<lambda>seg. if seg = old then new else seg) (splitDot p))"

section \<open>Auxiliary functions for the proofs about paths\<close>

text \<open>The text of a list of segments, each preceded by a dot; the segment lists the patterns
  of \<open>rewritePath\<close> produce, with the first middle occurrence (\<open>substMiddle\<close>, on the
  segments after the first) or the first occurrence (\<open>substFirst\<close>) replaced.\<close>

definition dotted :: "string list \<Rightarrow> string" where
  "dotted ts = concat (map (\<lambda>s. CHR ''.'' # s) ts)"

fun substMiddle :: "string \<Rightarrow> string \<Rightarrow> string list \<Rightarrow> string list" where
  "substMiddle q pre [] = []"
| "substMiddle q pre (s # ts) = (if s = q \<and> ts \<noteq> [] then pre # ts else s # substMiddle q pre ts)"

fun substFirst :: "string \<Rightarrow> string \<Rightarrow> string list \<Rightarrow> string list" where
  "substFirst q pre [] = []"
| "substFirst q pre (s # ts) = (if s = q then pre # ts else s # substFirst q pre ts)"

text \<open>The attributes \<open>parseOptionGroup\<close> gives an element that sets none of them.\<close>

abbreviation plainAttrs :: "node_attrs option" where
  "plainAttrs \<equiv> Some \<lparr>showInvert = VisNull, showCurve = VisNull, showSensitivity = VisNull,
      invertDefault = False, invertCvar = None, exponentDefault = None, curveDefault = None\<rparr>"

section \<open>Format converter: flat list to store\<close>

text \<open>
  The argument of \<open>loadControlSettings\<close>, as the backend sends it: per device and instance
  a list of options, each with its name, its attributes as key and value texts, and its
  curve points. \<open>None\<close> is a field that is missing or \<open>null\<close>. A point coordinate is the
  text \<open>parseFloat\<close> reads; the instance is a non-negative integer, on which
  \<open>parseInt(instance) || 1\<close> is the number itself, or \<open>1\<close> for \<open>0\<close>.
\<close>

record curve_point =
  in_val :: string
  out_val :: string

record loaded_option =
  option_name :: string
  attributes :: "(string \<times> string) list option"
  curve_points :: "curve_point list option"

record device_options =
  device_type :: string
  instance_number :: nat
  control_options :: "loaded_option list option"

text \<open>The loop over \<open>opt.attributes\<close>, on the \<open>settings\<close> object being built.\<close>

fun readAttributes ::
  "(string \<Rightarrow> jsnum) \<Rightarrow> bool \<Rightarrow> (string \<times> string) list \<Rightarrow> obj \<Rightarrow> obj" where
  "readAttributes pf hasPoints [] settings = settings"
| "readAttributes pf hasPoints ((key, val) # rest) settings =
     readAttributes pf hasPoints rest
       (if key = ''invert'' then put ''invert'' (JBool (val = ''1'')) settings
        else if key = ''exponent'' then
          (let settings' = put ''exponent'' (JNum (pf val)) settings
           in if \<not> hasPoints then put ''curveMode'' (JStr ''exponent'') settings' else settings')
        else settings)"

definition loadedSettings :: "(string \<Rightarrow> jsnum) \<Rightarrow> loaded_option \<Rightarrow> obj" where
  "loadedSettings pf opt =
     (let pts = (case curve_points opt of None \<Rightarrow> [] | Some ps \<Rightarrow> ps);
          settings = (case attributes opt of
                        None \<Rightarrow> []
                      | Some attrs \<Rightarrow> readAttributes pf (pts \<noteq> []) attrs [])
      in if pts \<noteq> [] then
           put ''curve''
             (JObj [(''points'',
                JArr (map (\<lambda>pt. JObj [(''in'', JNum (pf (in_val pt))),
                                       (''out'', JNum (pf (out_val pt)))]) pts))])
             (put ''curveMode'' (JStr ''curve'') settings)
         else settings)"

text \<open>The key the record is stored under: the path of the first node of the device's tree
  that has the option's name, when there is a tree, such a node, and a truthy path; the
  bare name otherwise.\<close>

definition fullPathFor :: "controls_data option \<Rightarrow> string \<Rightarrow> string \<Rightarrow> string" where
  "fullPathFor controlsData deviceType optionName =
     (case (case controlsData of None \<Rightarrow> None | Some cd \<Rightarrow> treeFor cd deviceType) of
        None \<Rightarrow> optionName
      | Some treeData \<Rightarrow>
          (case findNodeByName treeData optionName of
             None \<Rightarrow> optionName
           | Some found \<Rightarrow>
               (case nonEmptyAttr (nodePath found) of
                  Some p \<Rightarrow> p
                | None \<Rightarrow> optionName)))"

text \<open>The store step for one option: joysticks by instance, every other device type
  (the gamepad too) directly under \<open>userSettings[device_type]\<close>.\<close>

definition storeOption ::
  "user_settings \<Rightarrow> string \<Rightarrow> nat \<Rightarrow> string \<Rightarrow> obj \<Rightarrow> error + user_settings" where
  "storeOption us deviceType inst fullPath settings =
     (if deviceType = ''joystick'' then
        (let key = showNat (if inst = 0 then 1 else inst);
             dev = (if truthy (getProp (JObj (joystick us)) key) then joystick us
                    else put key (JObj []) (joystick us))
         in case assign (getProp (JObj dev) key) fullPath (JObj settings) of
              Inl e \<Rightarrow> Inl e
            | Inr bucket \<Rightarrow> Inr (us\<lparr>joystick := put key bucket dev\<rparr>))
      else
        (let ob = (case deviceSettings us deviceType of None \<Rightarrow> [] | Some ob \<Rightarrow> ob)
         in Inr (setDeviceSettings us deviceType (put fullPath (JObj settings) ob))))"

fun loadOptions ::
  "(string \<Rightarrow> jsnum) \<Rightarrow> controls_data option \<Rightarrow> string \<Rightarrow> nat \<Rightarrow> loaded_option list
     \<Rightarrow> user_settings \<Rightarrow> error + user_settings" where
  "loadOptions pf controlsData deviceType inst [] us = Inr us"
| "loadOptions pf controlsData deviceType inst (opt # rest) us =
     (case storeOption us deviceType inst
             (fullPathFor controlsData deviceType (option_name opt)) (loadedSettings pf opt) of
        Inl e \<Rightarrow> Inl e
      | Inr us' \<Rightarrow> loadOptions pf controlsData deviceType inst rest us')"

fun loadDevices ::
  "(string \<Rightarrow> jsnum) \<Rightarrow> controls_data option \<Rightarrow> device_options list
     \<Rightarrow> user_settings \<Rightarrow> error + user_settings" where
  "loadDevices pf controlsData [] us = Inr us"
| "loadDevices pf controlsData (deviceOpt # rest) us =
     (case control_options deviceOpt of
        None \<Rightarrow> loadDevices pf controlsData rest us
      | Some opts \<Rightarrow>
          (case loadOptions pf controlsData (device_type deviceOpt) (instance_number deviceOpt)
                  opts us of
             Inl e \<Rightarrow> Inl e
           | Inr us' \<Rightarrow> loadDevices pf controlsData rest us'))"

text \<open>\<open>loadControlSettings(deviceOptions)\<close>: nothing happens for an argument that is not an
  array (\<open>None\<close>); otherwise the store is emptied and filled from the list.\<close>

definition loadControlSettings ::
  "(string \<Rightarrow> jsnum) \<Rightarrow> controls_data option \<Rightarrow> editor_state \<Rightarrow> device_options list option
     \<Rightarrow> error + editor_state" where
  "loadControlSettings pf controlsData st deviceOptions =
     (case deviceOptions of
        None \<Rightarrow> Inr st
      | Some devs \<Rightarrow>
          (case loadDevices pf controlsData devs emptySettings of
             Inl e \<Rightarrow> Inl e
           | Inr us \<Rightarrow> Inr (st\<lparr>userSettings := us\<rparr>)))"

section \<open>Round trip through the flat list\<close>






section \<open>Data for the closed examples\<close>

text \<open>
  \<open>parseFloat\<close> is a parameter of the model. The closed examples below need one concrete
  reading of it; this one reads the four numerals the examples use as \<open>parseFloat\<close> does
  and gives \<open>NaN\<close> on every other text.
\<close>

definition exampleParseFloat :: "string \<Rightarrow> jsnum" where
  "exampleParseFloat s =
     (if s = ''1'' then Finite 1
      else if s = ''2'' then Finite 2
      else if s = ''0.5'' then Finite (1 / 2)
      else if s = ''0.25'' then Finite (1 / 4)
      else NotANumber)"

section \<open>Objects and paths: basic facts\<close>

lemma map_of_put: "map_of (put k v kvs) k' = (if k' = k then Some v else map_of kvs k')"
  by (induction kvs) auto

lemma getProp_put: "getProp (JObj (put k v kvs)) k' = (if k' = k then v else getProp (JObj kvs) k')"
  by (simp add: map_of_put)

lemma splitDot_nonempty: "splitDot p \<noteq> []"
  by (induction p) (auto split: list.splits)

lemma splitDot_dotfree: "s \<in> set (splitDot p) \<Longrightarrow> CHR ''.'' \<notin> set s"
  by (induction p arbitrary: s) (auto split: list.splits if_splits)

lemma joinDot_splitDot: "joinDot (splitDot p) = p"
proof (induction p)
  case Nil
  then show ?case by simp
next
  case (Cons c cs)
  obtain seg segs where sp: "splitDot cs = seg # segs"
    using splitDot_nonempty by (cases "splitDot cs") auto
  show ?case
  proof (cases "c = CHR ''.''")
    case True
    then show ?thesis using Cons sp by simp
  next
    case False
    then show ?thesis using Cons sp by (cases segs) auto
  qed
qed

lemma joinDot_Cons: "segs \<noteq> [] \<Longrightarrow> joinDot (seg # segs) = seg @ CHR ''.'' # joinDot segs"
  by (cases segs) auto

lemma splitDot_append_dotfree:
  "CHR ''.'' \<notin> set seg \<Longrightarrow> splitDot (seg @ CHR ''.'' # rest) = seg # splitDot rest"
  by (induction seg) (auto split: list.splits)

lemma splitDot_dotfree_id: "CHR ''.'' \<notin> set seg \<Longrightarrow> splitDot seg = [seg]"
  by (induction seg) (auto split: list.splits)

lemma splitDot_joinDot:
  "segs \<noteq> [] \<Longrightarrow> (\<And>s. s \<in> set segs \<Longrightarrow> CHR ''.'' \<notin> set s) \<Longrightarrow> splitDot (joinDot segs) = segs"
proof (induction segs)
  case Nil
  then show ?case by simp
next
  case (Cons seg segs)
  show ?case
  proof (cases segs)
    case Nil
    then show ?thesis using Cons.prems by (simp add: splitDot_dotfree_id)
  next
    case (Cons a list)
    then show ?thesis using Cons.IH Cons.prems
      by (simp add: splitDot_append_dotfree)
  qed
qed

lemma list_all_put: "P (k, v) \<Longrightarrow> list_all P kvs \<Longrightarrow> list_all P (put k v kvs)"
  by (induction kvs) auto

lemma digitChar_isDecDigit: "d < 10 \<Longrightarrow> isDecDigit (digitChar d)"
  by (simp add: isDecDigit_def digitChar_def)

lemma showNat_digits: "showNat n \<noteq> [] \<and> list_all isDecDigit (showNat n)"
proof (induction n rule: showNat.induct)
  case (1 n)
  show ?case
  proof (cases "n < 10")
    case True
    then show ?thesis by (simp add: showNat.simps [of n] digitChar_isDecDigit)
  next
    case False
    then show ?thesis using 1 by (simp add: showNat.simps [of n] digitChar_isDecDigit)
  qed
qed

lemma digits_dotfree: "list_all isDecDigit k \<Longrightarrow> CHR ''.'' \<notin> set k"
  by (induction k) (auto simp: isDecDigit_def)

lemma showNat_1: "showNat (Suc 0) = ''1''"
  by code_simp

section \<open>Properties of the curve math\<close>

lemma filter_eq_distinct:
  "distinct xs \<Longrightarrow> k \<in> set xs \<Longrightarrow> filter (\<lambda>x. k = x) xs = [k]"
  by (induction xs) (auto simp: filter_empty_conv)

lemma sort_key_distinct_perm:
  assumes "distinct (map f xs)" and "mset xs = mset ys"
  shows "sort_key f xs = sort_key f ys"
proof (rule properties_for_sort_key)
  show "mset (sort_key f ys) = mset xs" using assms(2) by simp
  show "sorted (map f (sort_key f ys))" by simp
next
  fix k assume k: "k \<in> set (sort_key f ys)"
  have inj: "inj_on f (set xs)" using assms(1) by (simp add: distinct_map)
  have sets: "set ys = set xs" using assms(2) by (metis mset_eq_setD)
  have dxs: "distinct xs" using assms(1) by (simp add: distinct_map)
  have dys: "distinct ys" using dxs assms(2) by (metis mset_eq_imp_distinct_iff)
  have kx: "k \<in> set xs" using k sets by simp
  have eq: "\<And>x. x \<in> set xs \<Longrightarrow> (f k = f x) = (k = x)"
    using inj kx by (auto dest: inj_onD)
  have a: "filter (\<lambda>x. f k = f x) (sort_key f ys) = filter (\<lambda>x. k = x) (sort_key f ys)"
    by (rule filter_cong) (use eq sets in auto)
  have b: "filter (\<lambda>x. f k = f x) xs = filter (\<lambda>x. k = x) xs"
    by (rule filter_cong) (use eq in auto)
  have c: "filter (\<lambda>x. k = x) (sort_key f ys) = [k]"
    using k dys by (simp add: filter_eq_distinct)
  have d: "filter (\<lambda>x. k = x) xs = [k]"
    using kx dxs by (simp add: filter_eq_distinct)
  show "filter (\<lambda>x. f k = f x) (sort_key f ys) = filter (\<lambda>x. f k = f x) xs"
    using a b c d by simp
qed

lemma interpolateCurve_first_segment:
  assumes "points \<noteq> []" and "input \<le> pin (hd (sort_key pin points))"
    and "pin (hd (sort_key pin points)) \<noteq> 0"
  shows "interpolateCurve input points =
           Finite (pout (hd (sort_key pin points)) * (input / pin (hd (sort_key pin points))))"
  using assms by (simp add: interpolateCurve_def jdiv_def Let_def split: prod.splits)

text \<open>
  C1. At or below the first point of the sorted list the source returns
  \<open>sorted[0].out * (input / sorted[0].in)\<close> with no test of the divisor. For the one
  point \<open>{in: 0, out: 0.5}\<close> and input \<open>0\<close> the quotient is \<open>0 / 0\<close> and the result is
  \<open>NaN\<close>, not the point's \<open>out\<close> value \<open>0.5\<close>.
\<close>

theorem C1_first_point_at_zero_gives_NaN:
  "interpolateCurve 0 [\<lparr>pin = 0, pout = 1 / 2\<rparr>] = NotANumber"
  by (simp add: interpolateCurve_def jdiv_def)

text \<open>
  C8, as stated: evaluation gives the same result for every ordering of the point list.
  It fails for two points with the same \<open>in\<close>: the stable sort keeps the caller's order
  and the first of them answers.
\<close>

theorem C8_order_matters_for_equal_in:
  "interpolateCurve (1 / 2) [\<lparr>pin = 1 / 2, pout = 1 / 5\<rparr>, \<lparr>pin = 1 / 2, pout = 4 / 5\<rparr>]
     \<noteq> interpolateCurve (1 / 2) [\<lparr>pin = 1 / 2, pout = 4 / 5\<rparr>, \<lparr>pin = 1 / 2, pout = 1 / 5\<rparr>]"
  by (simp add: interpolateCurve_def jdiv_def)

text \<open>
  C8, amended: for point lists whose \<open>in\<close> values are pairwise distinct, evaluation
  gives the same result for every permutation of the list, at every input.
\<close>

theorem C8_permutation_invariant_distinct_in:
  assumes "distinct (map pin ps)" and "mset ps = mset qs"
  shows "interpolateCurve x ps = interpolateCurve x qs"
proof -
  have s: "sort_key pin ps = sort_key pin qs"
    using assms by (rule sort_key_distinct_perm)
  have e: "(ps = []) = (qs = [])"
    using assms(2) by (metis mset_zero_iff)
  show ?thesis
    unfolding interpolateCurve_def s e ..
qed

theorem C8_permutation_invariant_witness:
  "distinct (map pin [\<lparr>pin = 4 / 5, pout = 13 / 20\<rparr>, \<lparr>pin = 1 / 5, pout = 1 / 20\<rparr>])
   \<and> mset [\<lparr>pin = 4 / 5, pout = 13 / 20\<rparr>, \<lparr>pin = 1 / 5, pout = 1 / 20\<rparr>]
       = mset [\<lparr>pin = 1 / 5, pout = 1 / 20\<rparr>, \<lparr>pin = 4 / 5, pout = 13 / 20\<rparr>]
   \<and> interpolateCurve (1 / 2) [\<lparr>pin = 4 / 5, pout = 13 / 20\<rparr>, \<lparr>pin = 1 / 5, pout = 1 / 20\<rparr>]
       = interpolateCurve (1 / 2) [\<lparr>pin = 1 / 5, pout = 1 / 20\<rparr>, \<lparr>pin = 4 / 5, pout = 13 / 20\<rparr>]
   \<and> interpolateCurve (1 / 2) [\<lparr>pin = 1 / 5, pout = 1 / 20\<rparr>, \<lparr>pin = 4 / 5, pout = 13 / 20\<rparr>]
       = Finite (7 / 20)"
proof -
  have d: "distinct (map pin [\<lparr>pin = 4 / 5, pout = 13 / 20\<rparr>, \<lparr>pin = 1 / 5, pout = 1 / 20\<rparr>])"
    by simp
  have m: "mset [\<lparr>pin = 4 / 5, pout = 13 / 20\<rparr>, \<lparr>pin = 1 / 5, pout = 1 / 20\<rparr>]
       = mset [\<lparr>pin = 1 / 5, pout = 1 / 20\<rparr>, \<lparr>pin = 4 / 5, pout = 13 / 20\<rparr>]"
    by simp
  have v: "interpolateCurve (1 / 2) [\<lparr>pin = 1 / 5, pout = 1 / 20\<rparr>, \<lparr>pin = 4 / 5, pout = 13 / 20\<rparr>]
       = Finite (7 / 20)"
    by (simp add: interpolateCurve_def jdiv_def)
  show ?thesis
    using d m v C8_permutation_invariant_distinct_in [OF d m, of "1 / 2"] by simp
qed

section \<open>Properties of the settings store\<close>

lemma getUserSetting_miss:
  "\<not> hasSettingAt st path sn \<Longrightarrow> \<not> hasSettingAt st (last (splitDot path)) sn
     \<Longrightarrow> getUserSetting st path sn d = d"
  by (auto simp: getUserSetting_def hasSettingAt_def Let_def)

lemma walkParents_none:
  "(\<And>j. 1 \<le> j \<Longrightarrow> j \<le> i \<Longrightarrow> getUserSetting st (joinDot (take j parts)) sn JUndefined = JUndefined)
     \<Longrightarrow> walkParents st parts sn i = None"
  by (induction i) (auto simp: Let_def)

lemma walkParents_hit:
  assumes "1 \<le> i" and "i \<le> n"
    and "getUserSetting st (joinDot (take i parts)) sn JUndefined \<noteq> JUndefined"
    and "\<And>j. i < j \<Longrightarrow> j \<le> n \<Longrightarrow> getUserSetting st (joinDot (take j parts)) sn JUndefined = JUndefined"
  shows "walkParents st parts sn n =
           Some \<lparr>value = getUserSetting st (joinDot (take i parts)) sn JUndefined,
                 inherited = True, inheritedFrom = Some (parts ! (i - 1))\<rparr>"
  using assms
proof (induction n)
  case 0
  then show ?case by simp
next
  case (Suc n)
  show ?case
  proof (cases "i = Suc n")
    case True
    then show ?thesis using Suc.prems(3) by (simp add: Let_def)
  next
    case False
    then have le: "i \<le> n" using Suc.prems(2) by simp
    have miss: "getUserSetting st (joinDot (take (Suc n) parts)) sn JUndefined = JUndefined"
      using Suc.prems(4) [of "Suc n"] le by simp
    have "walkParents st parts sn n =
           Some \<lparr>value = getUserSetting st (joinDot (take i parts)) sn JUndefined,
                 inherited = True, inheritedFrom = Some (parts ! (i - 1))\<rparr>"
      using Suc.IH [OF Suc.prems(1) le Suc.prems(3)] Suc.prems(4) by simp
    then show ?thesis using miss by (simp add: Let_def)
  qed
qed

lemma last_split_prefix:
  assumes "1 \<le> j" and "j \<le> length (splitDot path)"
  shows "last (splitDot (joinDot (take j (splitDot path)))) = splitDot path ! (j - 1)"
proof -
  have ne: "take j (splitDot path) \<noteq> []" using assms by auto
  have df: "\<And>s. s \<in> set (take j (splitDot path)) \<Longrightarrow> CHR ''.'' \<notin> set s"
    using splitDot_dotfree by (meson in_set_takeD)
  have "splitDot (joinDot (take j (splitDot path))) = take j (splitDot path)"
    using ne df by (rule splitDot_joinDot)
  then show ?thesis using assms ne by (simp add: last_conv_nth min_def)
qed

lemma no_record_default:
  assumes "list_all (\<lambda>k. \<not> hasSettingAt st k sn) (consultedKeys path)"
  shows "getUserSettingWithInheritance st path sn d =
           \<lparr>value = d, inherited = False, inheritedFrom = None\<rparr>"
proof -
  let ?parts = "splitDot path"
  have all: "\<And>k. k \<in> set (consultedKeys path) \<Longrightarrow> \<not> hasSettingAt st k sn"
    using assms by (simp add: list_all_iff)
  have pre: "\<not> hasSettingAt st (joinDot (take j ?parts)) sn"
    if "1 \<le> j" and "j \<le> length ?parts" for j
  proof -
    have "j \<in> set [1..<Suc (length ?parts)]" using that by auto
    then have "joinDot (take j ?parts) \<in> set (consultedKeys path)"
      unfolding consultedKeys_def Let_def by (simp del: upt_Suc)
    then show ?thesis by (rule all)
  qed
  have seg: "\<not> hasSettingAt st (?parts ! (j - 1)) sn"
    if "1 \<le> j" and "j \<le> length ?parts" for j
  proof -
    have "?parts ! (j - 1) \<in> set ?parts" using that by simp
    then have "?parts ! (j - 1) \<in> set (consultedKeys path)"
      unfolding consultedKeys_def Let_def by simp
    then show ?thesis by (rule all)
  qed
  have miss: "\<And>j. 1 \<le> j \<Longrightarrow> j \<le> length ?parts
      \<Longrightarrow> getUserSetting st (joinDot (take j ?parts)) sn JUndefined = JUndefined"
    using pre seg by (simp add: getUserSetting_miss last_split_prefix)
  have len: "1 \<le> length ?parts" using splitDot_nonempty [of path] by (cases ?parts) auto
  have "getUserSetting st (joinDot (take (length ?parts) ?parts)) sn JUndefined = JUndefined"
    using miss [of "length ?parts"] len by simp
  then have direct: "getUserSetting st path sn JUndefined = JUndefined"
    by (simp add: joinDot_splitDot)
  have "walkParents st ?parts sn (length ?parts - 1) = None"
    by (rule walkParents_none) (use miss in auto)
  then show ?thesis using direct
    by (simp add: getUserSettingWithInheritance_def Let_def)
qed

lemma nearest_first:
  assumes "getUserSetting st path sn JUndefined = JUndefined"
    and "1 \<le> i" and "i < length (splitDot path)"
    and "getUserSetting st (joinDot (take i (splitDot path))) sn JUndefined \<noteq> JUndefined"
    and "\<And>j. i < j \<Longrightarrow> j < length (splitDot path)
           \<Longrightarrow> getUserSetting st (joinDot (take j (splitDot path))) sn JUndefined = JUndefined"
  shows "getUserSettingWithInheritance st path sn d =
           \<lparr>value = getUserSetting st (joinDot (take i (splitDot path))) sn JUndefined,
            inherited = True, inheritedFrom = Some (splitDot path ! (i - 1))\<rparr>"
proof -
  have "walkParents st (splitDot path) sn (length (splitDot path) - 1) =
           Some \<lparr>value = getUserSetting st (joinDot (take i (splitDot path))) sn JUndefined,
                 inherited = True, inheritedFrom = Some (splitDot path ! (i - 1))\<rparr>"
    by (rule walkParents_hit) (use assms in auto)
  then show ?thesis using assms(1)
    by (simp add: getUserSettingWithInheritance_def Let_def)
qed

lemma set_then_inherit:
  assumes dt: "currentDeviceType st = ''keyboard'' \<or> currentDeviceType st = ''gamepad''
             \<or> currentDeviceType st = ''joystick''"
    and empty: "currentSettings st = JObj []"
  shows "\<exists>st'. setUserSetting st ''a.b.c'' ''exponent'' (JNum (Finite 2)) = Inr st'
           \<and> getUserSettingWithInheritance st' ''a.b.c.d'' ''exponent'' (JNum (Finite 1))
               = \<lparr>value = JNum (Finite 2), inherited = True, inheritedFrom = Some ''c''\<rparr>"
proof -
  let ?rec = "JObj [(''exponent'', JNum (Finite 2))]"
  let ?b = "[(''a.b.c'', ?rec)]"
  have srf: "setRecordField [] ''a.b.c'' ''exponent'' (JNum (Finite 2)) = Inr ?b"
    by (simp add: setRecordField_def)
  have inh: "getUserSettingWithInheritance st' ''a.b.c.d'' ''exponent'' (JNum (Finite 1))
               = \<lparr>value = JNum (Finite 2), inherited = True, inheritedFrom = Some ''c''\<rparr>"
    if "currentSettings st' = JObj ?b" for st'
    using that
    by (simp add: getUserSettingWithInheritance_def getUserSetting_def Let_def numeral_3_eq_3)
  consider (k) "currentDeviceType st = ''keyboard''" | (g) "currentDeviceType st = ''gamepad''"
    | (j) "currentDeviceType st = ''joystick''" using dt by blast
  then show ?thesis
  proof cases
    case k
    have kb: "keyboard (userSettings st) = []"
      using empty k by (simp add: currentSettings_def deviceSettings_def)
    let ?st = "st\<lparr>userSettings := (userSettings st)\<lparr>keyboard := ?b\<rparr>, hasUnsavedChanges := True\<rparr>"
    have "setUserSetting st ''a.b.c'' ''exponent'' (JNum (Finite 2)) = Inr ?st"
      using k kb srf by (simp add: setUserSetting_def deviceSettings_def setDeviceSettings_def Let_def)
    moreover have "currentSettings ?st = JObj ?b"
      using k by (simp add: currentSettings_def deviceSettings_def)
    ultimately show ?thesis using inh by blast
  next
    case g
    let ?key = "showNat (currentGamepadInstance st)"
    let ?dev = "gamepad (userSettings st)"
    have cur: "(let b = getProp (JObj ?dev) ?key in if truthy b then b else JObj []) = JObj []"
      using empty g by (simp add: currentSettings_def)
    have sif: "setInstanceField ?dev (currentGamepadInstance st) ''a.b.c'' ''exponent'' (JNum (Finite 2))
        = Inr (put ?key (JObj ?b) (if truthy (getProp (JObj ?dev) ?key) then ?dev else put ?key (JObj []) ?dev))"
      using cur srf unfolding setInstanceField_def Let_def
      by (auto simp: getProp_put simp del: getProp.simps)
    let ?st = "st\<lparr>userSettings := (userSettings st)\<lparr>gamepad := put ?key (JObj ?b) (if truthy (getProp (JObj ?dev) ?key) then ?dev else put ?key (JObj []) ?dev)\<rparr>, hasUnsavedChanges := True\<rparr>"
    have "setUserSetting st ''a.b.c'' ''exponent'' (JNum (Finite 2)) = Inr ?st"
      using g sif by (simp add: setUserSetting_def Let_def)
    moreover have "currentSettings ?st = JObj ?b"
      using g by (simp add: currentSettings_def getProp_put del: getProp.simps)
    ultimately show ?thesis using inh by blast
  next
    case j
    let ?key = "showNat (currentJoystickInstance st)"
    let ?dev = "joystick (userSettings st)"
    have cur: "(let b = getProp (JObj ?dev) ?key in if truthy b then b else JObj []) = JObj []"
      using empty j by (simp add: currentSettings_def)
    have sif: "setInstanceField ?dev (currentJoystickInstance st) ''a.b.c'' ''exponent'' (JNum (Finite 2))
        = Inr (put ?key (JObj ?b) (if truthy (getProp (JObj ?dev) ?key) then ?dev else put ?key (JObj []) ?dev))"
      using cur srf unfolding setInstanceField_def Let_def
      by (auto simp: getProp_put simp del: getProp.simps)
    let ?st = "st\<lparr>userSettings := (userSettings st)\<lparr>joystick := put ?key (JObj ?b) (if truthy (getProp (JObj ?dev) ?key) then ?dev else put ?key (JObj []) ?dev)\<rparr>, hasUnsavedChanges := True\<rparr>"
    have "setUserSetting st ''a.b.c'' ''exponent'' (JNum (Finite 2)) = Inr ?st"
      using j sif by (simp add: setUserSetting_def Let_def)
    moreover have "currentSettings ?st = JObj ?b"
      using j by (simp add: currentSettings_def getProp_put del: getProp.simps)
    ultimately show ?thesis using inh by blast
  qed
qed

text \<open>
  C3, as stated: for a path with no record at itself or at any ancestor the result is the
  supplied default, not inherited. Loading the one keyboard option \<open>c\<close> with
  \<open>exponent="2"\<close> while no tree is there keys its record under the bare name \<open>c\<close>. The
  bucket then has no record at \<open>q.c.r\<close>, \<open>q.c\<close> or \<open>q\<close>, yet
  \<open>getWithInheritance("q.c.r", "exponent", 1.0)\<close> returns \<open>2\<close>, inherited from \<open>c\<close>: the
  direct lookup of the ancestor \<open>q.c\<close> falls back to its final segment.
\<close>

theorem C3_short_name_supplies_value:
  "loadControlSettings exampleParseFloat None initialState
     (Some [\<lparr>device_type = ''keyboard'', instance_number = 1,
             control_options = Some [\<lparr>option_name = ''c'',
                attributes = Some [(''exponent'', ''2'')], curve_points = None\<rparr>]\<rparr>])
     = Inr (initialState\<lparr>userSettings := emptySettings
             \<lparr>keyboard := [(''c'', JObj [(''exponent'', JNum (Finite 2)),
                                         (''curveMode'', JStr ''exponent'')])]\<rparr>\<rparr>)
   \<and> getProp (currentSettings (initialState\<lparr>userSettings := emptySettings
             \<lparr>keyboard := [(''c'', JObj [(''exponent'', JNum (Finite 2)),
                                         (''curveMode'', JStr ''exponent'')])]\<rparr>\<rparr>))
        ''q.c.r'' = JUndefined
   \<and> getProp (currentSettings (initialState\<lparr>userSettings := emptySettings
             \<lparr>keyboard := [(''c'', JObj [(''exponent'', JNum (Finite 2)),
                                         (''curveMode'', JStr ''exponent'')])]\<rparr>\<rparr>))
        ''q.c'' = JUndefined
   \<and> getProp (currentSettings (initialState\<lparr>userSettings := emptySettings
             \<lparr>keyboard := [(''c'', JObj [(''exponent'', JNum (Finite 2)),
                                         (''curveMode'', JStr ''exponent'')])]\<rparr>\<rparr>))
        ''q'' = JUndefined
   \<and> getUserSettingWithInheritance
        (initialState\<lparr>userSettings := emptySettings
             \<lparr>keyboard := [(''c'', JObj [(''exponent'', JNum (Finite 2)),
                                         (''curveMode'', JStr ''exponent'')])]\<rparr>\<rparr>)
        ''q.c.r'' ''exponent'' (JNum (Finite 1))
       = \<lparr>value = JNum (Finite 2), inherited = True, inheritedFrom = Some ''c''\<rparr>"
proof -
  let ?b = "[(''c'', JObj [(''exponent'', JNum (Finite 2)), (''curveMode'', JStr ''exponent'')])]"
  let ?st = "initialState\<lparr>userSettings := emptySettings\<lparr>keyboard := ?b\<rparr>\<rparr>"
  have ld: "loadControlSettings exampleParseFloat None initialState
     (Some [\<lparr>device_type = ''keyboard'', instance_number = 1,
             control_options = Some [\<lparr>option_name = ''c'',
                attributes = Some [(''exponent'', ''2'')], curve_points = None\<rparr>]\<rparr>])
     = Inr ?st"
    by (simp add: loadControlSettings_def storeOption_def fullPathFor_def loadedSettings_def
        exampleParseFloat_def deviceSettings_def setDeviceSettings_def emptySettings_def
        keyBefore_def arrayIndex_def isDecDigit_def)
  have cur: "currentSettings ?st = JObj ?b"
    by (simp add: currentSettings_def initialState_def emptySettings_def deviceSettings_def)
  have keys: "getProp (currentSettings ?st) ''q.c.r'' = JUndefined"
    "getProp (currentSettings ?st) ''q.c'' = JUndefined"
    "getProp (currentSettings ?st) ''q'' = JUndefined"
    unfolding cur by simp_all
  have res: "getUserSettingWithInheritance ?st ''q.c.r'' ''exponent'' (JNum (Finite 1))
       = \<lparr>value = JNum (Finite 2), inherited = True, inheritedFrom = Some ''c''\<rparr>"
    by (simp add: getUserSettingWithInheritance_def getUserSetting_def cur Let_def)
  show ?thesis using ld keys res by simp
qed

text \<open>
  C3, amended. Inheritance resolution. (1) When the path itself has no direct value, the
  nearest ancestor path with a direct value supplies it, and \<open>inheritedFrom\<close> is that
  ancestor's last segment. (2) When the bucket holds the setting neither under the path
  or one of its ancestor paths nor under the final segment of any of them, the
  short-name key the direct lookup falls back to, the result is the supplied default with
  \<open>inherited = false\<close> and \<open>inheritedFrom = null\<close>. (3) For a keyboard, gamepad or joystick
  selection whose bucket is empty, after \<open>set("a.b.c", "exponent", 2.0)\<close> the call
  \<open>getWithInheritance("a.b.c.d", "exponent", 1.0)\<close> returns value \<open>2.0\<close>, inherited,
  from \<open>"c"\<close>.
\<close>

theorem C3_inheritance_resolution:
  "(getUserSetting st path sn JUndefined = JUndefined
      \<and> 1 \<le> i \<and> i < length (splitDot path)
      \<and> getUserSetting st (joinDot (take i (splitDot path))) sn JUndefined \<noteq> JUndefined
      \<and> (\<forall>j. i < j \<and> j < length (splitDot path)
             \<longrightarrow> getUserSetting st (joinDot (take j (splitDot path))) sn JUndefined = JUndefined)
    \<longrightarrow> getUserSettingWithInheritance st path sn d =
          \<lparr>value = getUserSetting st (joinDot (take i (splitDot path))) sn JUndefined,
           inherited = True, inheritedFrom = Some (splitDot path ! (i - 1))\<rparr>)
   \<and> (list_all (\<lambda>k. \<not> hasSettingAt st k sn) (consultedKeys path)
    \<longrightarrow> getUserSettingWithInheritance st path sn d =
          \<lparr>value = d, inherited = False, inheritedFrom = None\<rparr>)
   \<and> ((currentDeviceType st = ''keyboard'' \<or> currentDeviceType st = ''gamepad''
          \<or> currentDeviceType st = ''joystick'')
      \<and> currentSettings st = JObj []
    \<longrightarrow> (\<exists>st'. setUserSetting st ''a.b.c'' ''exponent'' (JNum (Finite 2)) = Inr st'
           \<and> getUserSettingWithInheritance st' ''a.b.c.d'' ''exponent'' (JNum (Finite 1))
               = \<lparr>value = JNum (Finite 2), inherited = True, inheritedFrom = Some ''c''\<rparr>))"
  using nearest_first [of st path sn i d] no_record_default [of st sn path d]
    set_then_inherit [of st]
  by blast

theorem C3_inheritance_resolution_witness:
  "setUserSetting initialState ''a.b.c'' ''exponent'' (JNum (Finite 2))
     = Inr (initialState
            \<lparr>userSettings := emptySettings
               \<lparr>keyboard := [(''a.b.c'', JObj [(''exponent'', JNum (Finite 2))])]\<rparr>,
             hasUnsavedChanges := True\<rparr>)
   \<and> getUserSettingWithInheritance
        (initialState
          \<lparr>userSettings := emptySettings
             \<lparr>keyboard := [(''a.b.c'', JObj [(''exponent'', JNum (Finite 2))])]\<rparr>,
           hasUnsavedChanges := True\<rparr>)
        ''a.b.c.d'' ''exponent'' (JNum (Finite 1))
       = \<lparr>value = JNum (Finite 2), inherited = True, inheritedFrom = Some ''c''\<rparr>
   \<and> list_all (\<lambda>k. \<not> hasSettingAt initialState k ''exponent'') (consultedKeys ''a.b.c.d'')
   \<and> getUserSettingWithInheritance initialState ''a.b.c.d'' ''exponent'' (JNum (Finite 1))
       = \<lparr>value = JNum (Finite 1), inherited = False, inheritedFrom = None\<rparr>
   \<and> currentSettings initialState = JObj []"
proof -
  let ?st1 = "initialState
            \<lparr>userSettings := emptySettings
               \<lparr>keyboard := [(''a.b.c'', JObj [(''exponent'', JNum (Finite 2))])]\<rparr>,
             hasUnsavedChanges := True\<rparr>"
  have cur0: "currentSettings initialState = JObj []"
    by (simp add: currentSettings_def initialState_def emptySettings_def deviceSettings_def)
  have cur1: "currentSettings ?st1 = JObj [(''a.b.c'', JObj [(''exponent'', JNum (Finite 2))])]"
    by (simp add: currentSettings_def initialState_def emptySettings_def deviceSettings_def)
  have dt: "currentDeviceType initialState = ''keyboard''"
    by (simp add: initialState_def)
  have s: "setUserSetting initialState ''a.b.c'' ''exponent'' (JNum (Finite 2)) = Inr ?st1"
    by (simp add: setUserSetting_def initialState_def emptySettings_def deviceSettings_def
        setDeviceSettings_def setRecordField_def)
  have sp: "splitDot ''a.b.c.d'' = [''a'', ''b'', ''c'', ''d'']"
    by simp
  have direct: "getUserSetting ?st1 ''a.b.c.d'' ''exponent'' JUndefined = JUndefined"
    by (simp add: getUserSetting_def cur1)
  have hit: "getUserSetting ?st1 (joinDot (take 3 (splitDot ''a.b.c.d''))) ''exponent'' JUndefined
      = JNum (Finite 2)"
    by (simp add: getUserSetting_def cur1 numeral_3_eq_3)
  have nearer: "\<forall>j. 3 < j \<and> j < length (splitDot ''a.b.c.d'')
      \<longrightarrow> getUserSetting ?st1 (joinDot (take j (splitDot ''a.b.c.d''))) ''exponent'' JUndefined
          = JUndefined"
    unfolding sp by auto
  have none: "list_all (\<lambda>k. \<not> hasSettingAt initialState k ''exponent'') (consultedKeys ''a.b.c.d'')"
    by (simp add: hasSettingAt_def cur0 consultedKeys_def)
  have a: "getUserSettingWithInheritance ?st1 ''a.b.c.d'' ''exponent'' (JNum (Finite 1))
       = \<lparr>value = JNum (Finite 2), inherited = True, inheritedFrom = Some ''c''\<rparr>"
    using C3_inheritance_resolution [of ?st1 "''a.b.c.d''" "''exponent''" 3 "JNum (Finite 1)"]
      direct hit nearer by (simp add: sp)
  have b: "getUserSettingWithInheritance initialState ''a.b.c.d'' ''exponent'' (JNum (Finite 1))
       = \<lparr>value = JNum (Finite 1), inherited = False, inheritedFrom = None\<rparr>"
    using C3_inheritance_resolution
      [of initialState "''a.b.c.d''" "''exponent''" 3 "JNum (Finite 1)"] none by blast
  have "\<exists>st'. setUserSetting initialState ''a.b.c'' ''exponent'' (JNum (Finite 2)) = Inr st'
           \<and> getUserSettingWithInheritance st' ''a.b.c.d'' ''exponent'' (JNum (Finite 1))
               = \<lparr>value = JNum (Finite 2), inherited = True, inheritedFrom = Some ''c''\<rparr>"
    using C3_inheritance_resolution
      [of initialState "''a.b.c.d''" "''exponent''" 3 "JNum (Finite 1)"] dt cur0 by blast
  then have a': "getUserSettingWithInheritance ?st1 ''a.b.c.d'' ''exponent'' (JNum (Finite 1))
       = \<lparr>value = JNum (Finite 2), inherited = True, inheritedFrom = Some ''c''\<rparr>"
    unfolding s by simp
  show ?thesis using s a a' none b cur0 by simp
qed

section \<open>Properties of the flat list\<close>

lemma collectOptions_append:
  "collectOptions (xs @ ys) =
     (case collectOptions xs of Inl e \<Rightarrow> Inl e
      | Inr a \<Rightarrow> (case collectOptions ys of Inl e \<Rightarrow> Inl e | Inr b \<Rightarrow> Inr (a @ b)))"
  by (induction xs) (auto split: sum.splits option.splits)

lemma collectOptions_mem:
  "collectOptions kvs = Inr es \<Longrightarrow> e \<in> set es
     \<Longrightarrow> \<exists>kv \<in> set kvs. controlOption (fst kv) (snd kv) = Inr (Some e)"
proof (induction kvs arbitrary: es)
  case Nil
  then show ?case by simp
next
  case (Cons kv kvs)
  obtain p ps where kv: "kv = (p, ps)" by (cases kv)
  show ?case
  proof (cases "controlOption p ps")
    case (Inl a)
    then show ?thesis using Cons.prems kv by simp
  next
    case (Inr r)
    show ?thesis
    proof (cases r)
      case None
      then show ?thesis using Cons Inr kv by auto
    next
      case (Some opt)
      then obtain rest where rest: "collectOptions kvs = Inr rest" and es: "es = opt # rest"
        using Cons.prems(1) Inr kv by (auto split: sum.splits)
      show ?thesis
      proof (cases "e = opt")
        case True
        then show ?thesis using Inr Some kv by auto
      next
        case False
        then have "e \<in> set rest" using Cons.prems(2) es by simp
        then show ?thesis using Cons.IH [OF rest] by auto
      qed
    qed
  qed
qed

lemma controlOption_exponent:
  assumes "controlOption p ps = Inr (Some e)"
  shows "name e = last (splitDot p)
    \<and> (exponent e \<noteq> JUndefined \<longrightarrow>
        ((if truthy (getProp ps ''curveMode'') then getProp ps ''curveMode'' else JStr ''exponent'')
             = JStr ''exponent''
           \<and> exponent e = getProp ps ''exponent'' \<and> getProp ps ''exponent'' \<noteq> JNum (Finite 1))
        \<or> (getProp ps ''curveMode'' = JStr ''curve''
           \<and> hasCurveOf (JStr ''curve'') (getProp ps ''curve'') = Inr True
           \<and> exponent e = JNum (Finite 1) \<and> curve e = getProp ps ''curve''))"
  using assms
  by (auto simp: controlOption_def Let_def hasCurveOf_def split: if_splits sum.splits)

lemma identity_exponent_dropped:
  "controlOption p (JObj [(''curveMode'', JStr ''exponent''), (''exponent'', JNum (Finite 1))]) = Inr None"
  by (simp add: controlOption_def hasCurveOf_def)

text \<open>
  C4, as stated: the flat list includes an exponent only when \<open>curveMode\<close> is
  \<open>"exponent"\<close> and the stored exponent differs from \<open>1.0\<close>. A record in curve mode with one
  point is written with \<open>exponent: 1\<close> beside its curve.
\<close>

theorem C4_curve_mode_entry_has_exponent:
  "generateControlOptionsXml
     (emptySettings\<lparr>keyboard :=
        [(''a.z'', JObj [(''curveMode'', JStr ''curve''),
           (''curve'', JObj [(''points'',
              JArr [JObj [(''in'', JNum (Finite (1 / 2))), (''out'', JNum (Finite (1 / 4)))]])])])]\<rparr>)
     ''keyboard'' 1
   = Inr (Some [\<lparr>name = ''z'', invert = JUndefined, exponent = JNum (Finite 1),
        curve = JObj [(''points'',
              JArr [JObj [(''in'', JNum (Finite (1 / 2))), (''out'', JNum (Finite (1 / 4)))]])]\<rparr>])"
  by (simp add: generateControlOptionsXml_def settingsFor_def deviceSettings_def emptySettings_def
      controlOption_def hasCurveOf_def)

text \<open>
  C4, amended. Every element of the flat list comes from a stored path and carries its
  last segment as name. If the element has an exponent, then either the record's curve
  mode (\<open>"exponent"\<close> when unset) is \<open>"exponent"\<close> and the exponent is the stored one,
  different from \<open>1.0\<close>, or the mode is \<open>"curve"\<close> with a non-empty curve and the exponent
  is the neutral \<open>1\<close> written beside that curve. A record without invert, in exponent
  mode with exponent \<open>1.0\<close>, contributes no element, wherever it stands in the bucket, and
  a bucket holding only such a record gives \<open>null\<close>.
\<close>

theorem C4_exponent_in_flat_list:
  "(generateControlOptionsXml us deviceType inst = Inr (Some es) \<and> e \<in> set es \<longrightarrow>
      (\<exists>kv \<in> set (entries (settingsFor us deviceType inst)).
          name e = last (splitDot (fst kv))
        \<and> (exponent e \<noteq> JUndefined \<longrightarrow>
             ((if truthy (getProp (snd kv) ''curveMode'') then getProp (snd kv) ''curveMode''
               else JStr ''exponent'') = JStr ''exponent''
              \<and> exponent e = getProp (snd kv) ''exponent''
              \<and> getProp (snd kv) ''exponent'' \<noteq> JNum (Finite 1))
           \<or> (getProp (snd kv) ''curveMode'' = JStr ''curve''
              \<and> hasCurveOf (JStr ''curve'') (getProp (snd kv) ''curve'') = Inr True
              \<and> exponent e = JNum (Finite 1) \<and> curve e = getProp (snd kv) ''curve''))))
   \<and> ((ps \<noteq> JUndefined \<and> ps \<noteq> JNull \<and> getProp ps ''invert'' = JUndefined
        \<and> getProp ps ''curveMode'' = JStr ''exponent''
        \<and> getProp ps ''exponent'' = JNum (Finite 1))
      \<longrightarrow> collectOptions (kvs1 @ (p, ps) # kvs2) = collectOptions (kvs1 @ kvs2))
   \<and> generateControlOptionsXml
        (emptySettings\<lparr>keyboard :=
           [(p, JObj [(''invert'', JUndefined), (''curveMode'', JStr ''exponent''),
                      (''exponent'', JNum (Finite 1))])]\<rparr>)
        ''keyboard'' inst = Inr None"
proof (intro conjI impI)
  assume a: "generateControlOptionsXml us deviceType inst = Inr (Some es) \<and> e \<in> set es"
  then have "collectOptions (entries (settingsFor us deviceType inst)) = Inr es"
    by (auto simp: generateControlOptionsXml_def Let_def split: if_splits sum.splits)
  then obtain kv where kv: "kv \<in> set (entries (settingsFor us deviceType inst))"
    and co: "controlOption (fst kv) (snd kv) = Inr (Some e)"
    using a collectOptions_mem by blast
  show "\<exists>kv \<in> set (entries (settingsFor us deviceType inst)).
          name e = last (splitDot (fst kv))
        \<and> (exponent e \<noteq> JUndefined \<longrightarrow>
             ((if truthy (getProp (snd kv) ''curveMode'') then getProp (snd kv) ''curveMode''
               else JStr ''exponent'') = JStr ''exponent''
              \<and> exponent e = getProp (snd kv) ''exponent''
              \<and> getProp (snd kv) ''exponent'' \<noteq> JNum (Finite 1))
           \<or> (getProp (snd kv) ''curveMode'' = JStr ''curve''
              \<and> hasCurveOf (JStr ''curve'') (getProp (snd kv) ''curve'') = Inr True
              \<and> exponent e = JNum (Finite 1) \<and> curve e = getProp (snd kv) ''curve''))"
    using kv controlOption_exponent [OF co] by blast
next
  assume "ps \<noteq> JUndefined \<and> ps \<noteq> JNull \<and> getProp ps ''invert'' = JUndefined
        \<and> getProp ps ''curveMode'' = JStr ''exponent''
        \<and> getProp ps ''exponent'' = JNum (Finite 1)"
  then have "controlOption p ps = Inr None"
    by (simp add: controlOption_def hasCurveOf_def del: getProp.simps)
  then have "collectOptions ((p, ps) # kvs2) = collectOptions kvs2"
    by simp
  then show "collectOptions (kvs1 @ (p, ps) # kvs2) = collectOptions (kvs1 @ kvs2)"
    by (simp only: collectOptions_append)
next
  show "generateControlOptionsXml
        (emptySettings\<lparr>keyboard :=
           [(p, JObj [(''invert'', JUndefined), (''curveMode'', JStr ''exponent''),
                      (''exponent'', JNum (Finite 1))])]\<rparr>)
        ''keyboard'' inst = Inr None"
    by (simp add: generateControlOptionsXml_def settingsFor_def deviceSettings_def
        emptySettings_def controlOption_def hasCurveOf_def)
qed

theorem C4_exponent_in_flat_list_witness:
  "generateControlOptionsXml
     (emptySettings\<lparr>keyboard :=
        [(''a.x'', JObj [(''curveMode'', JStr ''exponent''), (''exponent'', JNum (Finite 2))]),
         (''a.y'', JObj [(''curveMode'', JStr ''exponent''), (''exponent'', JNum (Finite 1))])]\<rparr>)
     ''keyboard'' 1
     = Inr (Some [\<lparr>name = ''x'', invert = JUndefined, exponent = JNum (Finite 2),
                   curve = JUndefined\<rparr>])
   \<and> collectOptions
       ([(''a.x'', JObj [(''curveMode'', JStr ''exponent''), (''exponent'', JNum (Finite 2))])]
        @ (''a.y'', JObj [(''curveMode'', JStr ''exponent''), (''exponent'', JNum (Finite 1))]) # [])
     = collectOptions
       ([(''a.x'', JObj [(''curveMode'', JStr ''exponent''), (''exponent'', JNum (Finite 2))])] @ [])
   \<and> (\<exists>kv \<in> set [(''a.x'', JObj [(''curveMode'', JStr ''exponent''), (''exponent'', JNum (Finite 2))]),
         (''a.y'', JObj [(''curveMode'', JStr ''exponent''), (''exponent'', JNum (Finite 1))])].
         ''x'' = last (splitDot (fst kv)) \<and> JNum (Finite 2) = getProp (snd kv) ''exponent'')"
proof -
  let ?rx = "JObj [(''curveMode'', JStr ''exponent''), (''exponent'', JNum (Finite 2))]"
  let ?ry = "JObj [(''curveMode'', JStr ''exponent''), (''exponent'', JNum (Finite 1))]"
  let ?us = "emptySettings\<lparr>keyboard := [(''a.x'', ?rx), (''a.y'', ?ry)]\<rparr>"
  let ?e = "\<lparr>name = ''x'', invert = JUndefined, exponent = JNum (Finite 2), curve = JUndefined\<rparr>"
  have g: "generateControlOptionsXml ?us ''keyboard'' 1 = Inr (Some [?e])"
    by (simp add: generateControlOptionsXml_def settingsFor_def deviceSettings_def
        emptySettings_def controlOption_def hasCurveOf_def)
  have en: "entries (settingsFor ?us ''keyboard'' 1) = [(''a.x'', ?rx), (''a.y'', ?ry)]"
    by (simp add: settingsFor_def deviceSettings_def emptySettings_def)
  have hy: "?ry \<noteq> JUndefined \<and> ?ry \<noteq> JNull \<and> getProp ?ry ''invert'' = JUndefined
        \<and> getProp ?ry ''curveMode'' = JStr ''exponent''
        \<and> getProp ?ry ''exponent'' = JNum (Finite 1)"
    by simp
  note c4 = C4_exponent_in_flat_list
    [of ?us "''keyboard''" 1 "[?e]" ?e ?ry "[(''a.x'', ?rx)]" "''a.y''" "[]"]
  have c: "collectOptions ([(''a.x'', ?rx)] @ (''a.y'', ?ry) # []) = collectOptions ([(''a.x'', ?rx)] @ [])"
    using c4 hy by blast
  have "\<exists>kv \<in> set (entries (settingsFor ?us ''keyboard'' 1)).
          name ?e = last (splitDot (fst kv))
        \<and> (exponent ?e \<noteq> JUndefined \<longrightarrow>
             ((if truthy (getProp (snd kv) ''curveMode'') then getProp (snd kv) ''curveMode''
               else JStr ''exponent'') = JStr ''exponent''
              \<and> exponent ?e = getProp (snd kv) ''exponent''
              \<and> getProp (snd kv) ''exponent'' \<noteq> JNum (Finite 1))
           \<or> (getProp (snd kv) ''curveMode'' = JStr ''curve''
              \<and> hasCurveOf (JStr ''curve'') (getProp (snd kv) ''curve'') = Inr True
              \<and> exponent ?e = JNum (Finite 1) \<and> curve ?e = getProp (snd kv) ''curve''))"
    using c4 g by simp
  then have m: "\<exists>kv \<in> set [(''a.x'', ?rx), (''a.y'', ?ry)].
         ''x'' = last (splitDot (fst kv)) \<and> JNum (Finite 2) = getProp (snd kv) ''exponent''"
    unfolding en by simp
  show ?thesis using g c m by blast
qed

lemma getProp_bucketOfRecords:
  "bucketOfRecords b \<Longrightarrow> getProp b x = JUndefined \<or> isObject (getProp b x)"
proof (cases b)
  case (JObj recs)
  assume "bucketOfRecords b"
  then have all: "list_all (\<lambda>kv. isObject (snd kv)) recs" using JObj by simp
  show ?thesis
  proof (cases "map_of recs x")
    case None
    then show ?thesis using JObj by simp
  next
    case (Some v)
    then have "(x, v) \<in> set recs" by (rule map_of_SomeD)
    then have "isObject v" using all by (auto simp: list_all_iff)
    then show ?thesis using JObj Some by simp
  qed
qed auto

lemma isObject_facts:
  "isObject v \<Longrightarrow> truthy v \<and> v \<noteq> JUndefined \<and> v \<noteq> JNull \<and> v \<noteq> JStr s \<and> v \<noteq> JNum n"
  by (cases v) auto

lemma controlOption_bucket:
  assumes b: "bucketOfRecords b" and k: "list_all isDecDigit k"
  shows "\<exists>r. controlOption k b = Inr r
     \<and> (case r of None \<Rightarrow> True
        | Some e \<Rightarrow> name e = k
            \<and> (invert e = JUndefined \<or> isObject (invert e))
            \<and> (exponent e = JUndefined \<or> isObject (exponent e))
            \<and> curve e = JUndefined)"
proof -
  have nm: "last (splitDot k) = k"
    using k by (simp add: digits_dotfree splitDot_dotfree_id)
  have bo: "isObject b" using b by (cases b) auto
  have i: "getProp b ''invert'' = JUndefined \<or> isObject (getProp b ''invert'')"
    using b by (rule getProp_bucketOfRecords)
  have x: "getProp b ''exponent'' = JUndefined \<or> isObject (getProp b ''exponent'')"
    using b by (rule getProp_bucketOfRecords)
  have m: "getProp b ''curveMode'' = JUndefined \<or> isObject (getProp b ''curveMode'')"
    using b by (rule getProp_bucketOfRecords)
  have hc: "hasCurveOf (if truthy (getProp b ''curveMode'') then getProp b ''curveMode'' else JStr ''exponent'')
              (getProp b ''curve'') = Inr False"
    using m isObject_facts [of "getProp b ''curveMode''"] by (auto simp: hasCurveOf_def)
  show ?thesis
    using isObject_facts [of b] bo i x nm hc
    unfolding controlOption_def Let_def
    by (auto simp del: getProp.simps)
qed

lemma collectOptions_instanceKeyed:
  assumes "instanceKeyed dev"
  shows "\<exists>es. collectOptions dev = Inr es
     \<and> list_all (\<lambda>e. name e \<in> fst ` set dev
            \<and> (invert e = JUndefined \<or> isObject (invert e))
            \<and> (exponent e = JUndefined \<or> isObject (exponent e))
            \<and> curve e = JUndefined) es"
  using assms
proof (induction dev)
  case Nil
  then show ?case by simp
next
  case (Cons kv dev)
  obtain k b where kv: "kv = (k, b)" by (cases kv)
  have kb: "list_all isDecDigit k" "bucketOfRecords b" and rest: "instanceKeyed dev"
    using Cons.prems kv by (auto simp: instanceKeyed_def)
  obtain es where es: "collectOptions dev = Inr es"
    and all: "list_all (\<lambda>e. name e \<in> fst ` set dev
            \<and> (invert e = JUndefined \<or> isObject (invert e))
            \<and> (exponent e = JUndefined \<or> isObject (exponent e))
            \<and> curve e = JUndefined) es"
    using Cons.IH [OF rest] by blast
  have all': "list_all (\<lambda>e. name e \<in> fst ` set (kv # dev)
            \<and> (invert e = JUndefined \<or> isObject (invert e))
            \<and> (exponent e = JUndefined \<or> isObject (exponent e))
            \<and> curve e = JUndefined) es"
    using all by (auto simp: list_all_iff)
  obtain r where r: "controlOption k b = Inr r"
    and rp: "case r of None \<Rightarrow> True
        | Some e \<Rightarrow> name e = k
            \<and> (invert e = JUndefined \<or> isObject (invert e))
            \<and> (exponent e = JUndefined \<or> isObject (exponent e))
            \<and> curve e = JUndefined"
    using controlOption_bucket [OF kb(2) kb(1)] by blast
  show ?case
  proof (cases r)
    case None
    then show ?thesis using r es all' kv by simp
  next
    case (Some e)
    then show ?thesis using r rp es all' kv by simp
  qed
qed

lemma setRecordField_records:
  assumes "list_all (\<lambda>kv. isObject (snd kv)) recs"
  shows "\<exists>recs'. setRecordField recs p sn v = Inr recs'
     \<and> list_all (\<lambda>kv. isObject (snd kv)) recs'
     \<and> getProp (getProp (JObj recs') p) sn = v"
proof -
  let ?recs' = "if truthy (getProp (JObj recs) p) then recs else put p (JObj []) recs"
  have all': "list_all (\<lambda>kv. isObject (snd kv)) ?recs'"
    using assms by (simp add: list_all_put)
  have "bucketOfRecords (JObj ?recs')" using all' by simp
  then have "getProp (JObj ?recs') p = JUndefined \<or> isObject (getProp (JObj ?recs') p)"
    by (rule getProp_bucketOfRecords)
  moreover have "truthy (getProp (JObj ?recs') p)"
    by (simp add: getProp_put del: getProp.simps)
  ultimately obtain r where r: "getProp (JObj ?recs') p = JObj r"
    by (cases "getProp (JObj ?recs') p") auto
  have "setRecordField recs p sn v = Inr (put p (JObj (put sn v r)) ?recs')"
    using r unfolding setRecordField_def Let_def by (simp del: getProp.simps)
  moreover have "list_all (\<lambda>kv. isObject (snd kv)) (put p (JObj (put sn v r)) ?recs')"
    using all' by (simp add: list_all_put)
  moreover have "getProp (getProp (JObj (put p (JObj (put sn v r)) ?recs')) p) sn = v"
    by (simp add: map_of_put)
  ultimately show ?thesis by blast
qed

lemma setInstanceField_instanceKeyed:
  assumes "instanceKeyed dev"
  shows "\<exists>dev'. setInstanceField dev inst p sn v = Inr dev'
     \<and> instanceKeyed dev'
     \<and> getProp (getProp (getProp (JObj dev') (showNat inst)) p) sn = v"
proof -
  let ?key = "showNat inst"
  let ?dev' = "if truthy (getProp (JObj dev) ?key) then dev else put ?key (JObj []) dev"
  let ?P = "\<lambda>kv. fst kv \<noteq> [] \<and> list_all isDecDigit (fst kv) \<and> bucketOfRecords (snd kv)"
  have all': "list_all ?P ?dev'"
    using assms showNat_digits [of inst] by (simp add: instanceKeyed_def list_all_put)
  have tr: "truthy (getProp (JObj ?dev') ?key)"
    by (simp add: getProp_put del: getProp.simps)
  have "bucketOfRecords (getProp (JObj ?dev') ?key)"
  proof (cases "map_of ?dev' ?key")
    case None
    then show ?thesis using tr by simp
  next
    case (Some b)
    then have "(?key, b) \<in> set ?dev'" by (rule map_of_SomeD)
    then have "bucketOfRecords b" using all' by (auto simp: list_all_iff)
    then show ?thesis using Some by simp
  qed
  then obtain bucket where b: "getProp (JObj ?dev') ?key = JObj bucket"
    and recs: "list_all (\<lambda>kv. isObject (snd kv)) bucket"
    by (cases "getProp (JObj ?dev') ?key") auto
  obtain bucket' where s: "setRecordField bucket p sn v = Inr bucket'"
    and recs': "list_all (\<lambda>kv. isObject (snd kv)) bucket'"
    and val: "getProp (getProp (JObj bucket') p) sn = v"
    using setRecordField_records [OF recs] by blast
  have "setInstanceField dev inst p sn v = Inr (put ?key (JObj bucket') ?dev')"
    using b s unfolding setInstanceField_def Let_def by (simp del: getProp.simps)
  moreover have "instanceKeyed (put ?key (JObj bucket') ?dev')"
    unfolding instanceKeyed_def
    using all' recs' showNat_digits [of inst] by (simp add: list_all_put)
  moreover have "getProp (getProp (getProp (JObj (put ?key (JObj bucket') ?dev')) ?key) p) sn = v"
    using val by (simp add: getProp_put del: getProp.simps)
  ultimately show ?thesis by blast
qed

lemma setUserSetting_gamepad:
  assumes "currentDeviceType st = ''gamepad''" and "instanceKeyed (gamepad (userSettings st))"
  shows "\<exists>st'. setUserSetting st p sn v = Inr st'
     \<and> instanceKeyed (gamepad (userSettings st'))
     \<and> getProp (getProp (getProp (JObj (gamepad (userSettings st')))
            (showNat (currentGamepadInstance st))) p) sn = v"
proof -
  obtain dev' where s: "setInstanceField (gamepad (userSettings st)) (currentGamepadInstance st) p sn v = Inr dev'"
    and k: "instanceKeyed dev'"
    and val: "getProp (getProp (getProp (JObj dev') (showNat (currentGamepadInstance st))) p) sn = v"
    using setInstanceField_instanceKeyed [OF assms(2)] by blast
  have "setUserSetting st p sn v =
      Inr (st\<lparr>userSettings := (userSettings st)\<lparr>gamepad := dev'\<rparr>, hasUnsavedChanges := True\<rparr>)"
    using assms(1) s by (simp add: setUserSetting_def Let_def)
  then show ?thesis using k val by simp
qed

lemma generate_gamepad:
  assumes "instanceKeyed (gamepad us)"
  shows "\<exists>r. generateControlOptionsXml us ''gamepad'' inst = Inr r
     \<and> list_all (\<lambda>e. name e \<in> fst ` set (gamepad us)
            \<and> (invert e = JUndefined \<or> isObject (invert e))
            \<and> (exponent e = JUndefined \<or> isObject (exponent e))
            \<and> curve e = JUndefined) (case r of None \<Rightarrow> [] | Some es \<Rightarrow> es)"
proof -
  obtain es where es: "collectOptions (gamepad us) = Inr es"
    and all: "list_all (\<lambda>e. name e \<in> fst ` set (gamepad us)
            \<and> (invert e = JUndefined \<or> isObject (invert e))
            \<and> (exponent e = JUndefined \<or> isObject (exponent e))
            \<and> curve e = JUndefined) es"
    using collectOptions_instanceKeyed [OF assms] by blast
  have sf: "settingsFor us ''gamepad'' inst = JObj (gamepad us)"
    by (simp add: settingsFor_def deviceSettings_def)
  show ?thesis
    using es all unfolding generateControlOptionsXml_def sf Let_def
    by (cases "gamepad us = []"; cases "es = []") auto
qed

text \<open>
  C9. \<open>setUserSetting\<close> in a gamepad selection writes the value at
  \<open>userSettings.gamepad[instance][path][settingName]\<close> and keeps \<open>userSettings.gamepad\<close>
  keyed by instance number. \<open>generateControlOptionsXml('gamepad', instance)\<close> does not look
  at its instance: it enumerates \<open>userSettings.gamepad\<close> itself, so on a store of that
  shape every element it returns is named by an instance key, its \<open>invert\<close> and
  \<open>exponent\<close> are absent or whole record objects, and it has no curve. No value written by
  \<open>setUserSetting\<close> is an element's setting.
\<close>

theorem C9_gamepad_bucket_mismatch:
  "(currentDeviceType st = ''gamepad'' \<and> instanceKeyed (gamepad (userSettings st)) \<longrightarrow>
      (\<exists>st'. setUserSetting st p sn v = Inr st'
         \<and> instanceKeyed (gamepad (userSettings st'))
         \<and> getProp (getProp (getProp (JObj (gamepad (userSettings st')))
              (showNat (currentGamepadInstance st))) p) sn = v))
   \<and> settingsFor us ''gamepad'' inst = JObj (gamepad us)
   \<and> generateControlOptionsXml us ''gamepad'' inst = generateControlOptionsXml us ''gamepad'' inst'
   \<and> (instanceKeyed (gamepad us) \<longrightarrow>
      (\<exists>r. generateControlOptionsXml us ''gamepad'' inst = Inr r
         \<and> list_all (\<lambda>e. name e \<in> fst ` set (gamepad us)
              \<and> (invert e = JUndefined \<or> isObject (invert e))
              \<and> (exponent e = JUndefined \<or> isObject (exponent e))
              \<and> curve e = JUndefined) (case r of None \<Rightarrow> [] | Some es \<Rightarrow> es)))"
proof (intro conjI impI)
  assume "currentDeviceType st = ''gamepad'' \<and> instanceKeyed (gamepad (userSettings st))"
  then show "\<exists>st'. setUserSetting st p sn v = Inr st'
         \<and> instanceKeyed (gamepad (userSettings st'))
         \<and> getProp (getProp (getProp (JObj (gamepad (userSettings st')))
              (showNat (currentGamepadInstance st))) p) sn = v"
    using setUserSetting_gamepad by blast
next
  show "settingsFor us ''gamepad'' inst = JObj (gamepad us)"
    by (simp add: settingsFor_def deviceSettings_def)
next
  show "generateControlOptionsXml us ''gamepad'' inst = generateControlOptionsXml us ''gamepad'' inst'"
    by (simp add: generateControlOptionsXml_def settingsFor_def)
next
  assume "instanceKeyed (gamepad us)"
  then show "\<exists>r. generateControlOptionsXml us ''gamepad'' inst = Inr r
         \<and> list_all (\<lambda>e. name e \<in> fst ` set (gamepad us)
              \<and> (invert e = JUndefined \<or> isObject (invert e))
              \<and> (exponent e = JUndefined \<or> isObject (exponent e))
              \<and> curve e = JUndefined) (case r of None \<Rightarrow> [] | Some es \<Rightarrow> es)"
    by (rule generate_gamepad)
qed

theorem C9_gamepad_bucket_mismatch_witness:
  "instanceKeyed (gamepad (userSettings (initialState\<lparr>currentDeviceType := ''gamepad''\<rparr>)))
   \<and> setUserSetting (initialState\<lparr>currentDeviceType := ''gamepad''\<rparr>) ''a.b'' ''invert'' (JBool True)
     = Inr (initialState\<lparr>currentDeviceType := ''gamepad'',
          userSettings := emptySettings
            \<lparr>gamepad := [(''1'', JObj [(''a.b'', JObj [(''invert'', JBool True)])])]\<rparr>,
          hasUnsavedChanges := True\<rparr>)
   \<and> instanceKeyed [(''1'', JObj [(''a.b'', JObj [(''invert'', JBool True)])])]
   \<and> generateControlOptionsXml
        (emptySettings\<lparr>gamepad := [(''1'', JObj [(''a.b'', JObj [(''invert'', JBool True)])])]\<rparr>)
        ''gamepad'' 1 = Inr None
   \<and> generateControlOptionsXml
        (emptySettings\<lparr>gamepad := [(''1'', JObj [(''invert'', JObj [(''exponent'', JNum (Finite 2))])])]\<rparr>)
        ''gamepad'' 1
     = Inr (Some [\<lparr>name = ''1'', invert = JObj [(''exponent'', JNum (Finite 2))],
                   exponent = JUndefined, curve = JUndefined\<rparr>])"
proof -
  let ?st = "initialState\<lparr>currentDeviceType := ''gamepad''\<rparr>"
  let ?gp = "[(''1'', JObj [(''a.b'', JObj [(''invert'', JBool True)])])]"
  let ?us = "emptySettings\<lparr>gamepad := ?gp\<rparr>"
  let ?us2 = "emptySettings\<lparr>gamepad := [(''1'', JObj [(''invert'', JObj [(''exponent'', JNum (Finite 2))])])]\<rparr>"
  have dt: "currentDeviceType ?st = ''gamepad''" by simp
  have k0: "instanceKeyed (gamepad (userSettings ?st))"
    by (simp add: instanceKeyed_def initialState_def emptySettings_def)
  have s: "setUserSetting ?st ''a.b'' ''invert'' (JBool True)
     = Inr (initialState\<lparr>currentDeviceType := ''gamepad'', userSettings := ?us,
          hasUnsavedChanges := True\<rparr>)"
    by (simp add: setUserSetting_def initialState_def emptySettings_def setInstanceField_def
        setRecordField_def showNat_1)
  have "\<exists>st'. setUserSetting ?st ''a.b'' ''invert'' (JBool True) = Inr st'
         \<and> instanceKeyed (gamepad (userSettings st'))
         \<and> getProp (getProp (getProp (JObj (gamepad (userSettings st')))
              (showNat (currentGamepadInstance ?st))) ''a.b'') ''invert'' = JBool True"
    using C9_gamepad_bucket_mismatch [of ?st "''a.b''" "''invert''" "JBool True"] dt k0 by blast
  then have k1: "instanceKeyed ?gp"
    unfolding s by (simp add: emptySettings_def)
  have gk: "instanceKeyed (gamepad ?us)" using k1 by (simp add: emptySettings_def)
  have "\<exists>r. generateControlOptionsXml ?us ''gamepad'' 1 = Inr r
         \<and> list_all (\<lambda>e. name e \<in> fst ` set (gamepad ?us)
              \<and> (invert e = JUndefined \<or> isObject (invert e))
              \<and> (exponent e = JUndefined \<or> isObject (exponent e))
              \<and> curve e = JUndefined) (case r of None \<Rightarrow> [] | Some es \<Rightarrow> es)"
    using C9_gamepad_bucket_mismatch [of ?st "''a.b''" "''invert''" "JBool True" ?us 1 1] gk by blast
  have g1: "generateControlOptionsXml ?us ''gamepad'' 1 = Inr None"
    by (simp add: generateControlOptionsXml_def settingsFor_def deviceSettings_def emptySettings_def
        controlOption_def hasCurveOf_def)
  have g2: "generateControlOptionsXml ?us2 ''gamepad'' 1
     = Inr (Some [\<lparr>name = ''1'', invert = JObj [(''exponent'', JNum (Finite 2))],
                   exponent = JUndefined, curve = JUndefined\<rparr>])"
    by (simp add: generateControlOptionsXml_def settingsFor_def deviceSettings_def emptySettings_def
        controlOption_def hasCurveOf_def)
  show ?thesis using k0 s k1 g1 g2 by blast
qed

section \<open>Properties of the hierarchy builder\<close>

text \<open>
  C7, as stated: every attribute value other than \<open>-1\<close>, \<open>0\<close> and \<open>1\<close> parses to
  \<open>null\<close>, for example \<open>"1.5"\<close>. \<open>parseInt\<close> stops at the dot and reads \<open>1\<close>.
\<close>

theorem C7_one_point_five_is_true:
  "parseVisibility (Some ''1.5'') = VisTrue"
  by (simp add: parseVisibility_def parseInt_def isWhiteSpace_def digitValue_def)

text \<open>
  C7, amended: an unset attribute parses to \<open>null\<close>; a set one is read by \<open>parseInt\<close>,
  and the integer read decides: \<open>-1\<close> gives \<open>"inherit"\<close>, \<open>0\<close> gives \<open>false\<close>, \<open>1\<close> gives
  \<open>true\<close>, any other integer and a text with no leading integer give \<open>null\<close>. So the
  texts \<open>-1\<close>, \<open>0\<close>, \<open>1\<close> parse as listed and \<open>2\<close>, \<open>yes\<close> and the empty text to
  \<open>null\<close>.
\<close>

theorem C7_parse_visibility:
  "parseVisibility None = VisNull
   \<and> parseVisibility (Some a) =
       (if parseInt a = Some (- 1) then VisInherit
        else if parseInt a = Some 0 then VisFalse
        else if parseInt a = Some 1 then VisTrue
        else VisNull)
   \<and> parseVisibility (Some ''-1'') = VisInherit
   \<and> parseVisibility (Some ''0'') = VisFalse
   \<and> parseVisibility (Some ''1'') = VisTrue
   \<and> parseVisibility (Some ''2'') = VisNull
   \<and> parseVisibility (Some ''yes'') = VisNull
   \<and> parseVisibility (Some '''') = VisNull"
proof -
  have general: "parseVisibility (Some a) =
       (if parseInt a = Some (- 1) then VisInherit
        else if parseInt a = Some 0 then VisFalse
        else if parseInt a = Some 1 then VisTrue
        else VisNull)"
    by (cases "parseInt a") (simp_all add: parseVisibility_def)
  have examples: "parseVisibility None = VisNull
   \<and> parseVisibility (Some ''-1'') = VisInherit
   \<and> parseVisibility (Some ''0'') = VisFalse
   \<and> parseVisibility (Some ''1'') = VisTrue
   \<and> parseVisibility (Some ''2'') = VisNull
   \<and> parseVisibility (Some ''yes'') = VisNull
   \<and> parseVisibility (Some '''') = VisNull"
    by (simp add: parseVisibility_def parseInt_def isWhiteSpace_def digitValue_def)
  show ?thesis using general examples by blast
qed

lemma transform_not_null: "transformToSCHierarchy (Some rawData) deviceType \<noteq> None"
  by (simp add: transformToSCHierarchy_def Let_def split: option.splits)

lemma treeFor_addOptionTree:
  assumes "ty = ''keyboard'' \<or> ty = ''gamepad'' \<or> ty = ''joystick''"
  shows "(treeFor (addOptionTree pf cd tree) ty \<noteq> None)
       = (treeFor cd ty \<noteq> None \<or> getAttribute tree ''type'' = Some ty)"
proof (cases "getAttribute tree ''type'' = Some ty")
  case True
  then show ?thesis
    using assms transform_not_null [of "rawTree pf tree ty" ty]
    by (auto simp: addOptionTree_def nonEmptyAttr_def setTreeFor_def treeFor_def)
next
  case False
  then show ?thesis
    using assms
    by (auto simp: addOptionTree_def nonEmptyAttr_def setTreeFor_def treeFor_def
        split: option.splits if_splits)
qed

lemma treeFor_foldl_addOptionTree:
  assumes "ty = ''keyboard'' \<or> ty = ''gamepad'' \<or> ty = ''joystick''"
  shows "(treeFor (foldl (addOptionTree pf) cd trees) ty \<noteq> None)
       = (treeFor cd ty \<noteq> None \<or> (\<exists>tree \<in> set trees. getAttribute tree ''type'' = Some ty))"
proof (induction trees arbitrary: cd)
  case Nil
  then show ?case by simp
next
  case (Cons tree trees)
  show ?case
    using Cons.IH [of "addOptionTree pf cd tree"] treeFor_addOptionTree [OF assms, of pf cd tree]
    by auto
qed

text \<open>
  C6, as stated: whatever is missing, each of the three device classes ends up with a
  tree. A document that holds only a keyboard \<open>optiontree\<close> leaves the gamepad and the
  joystick \<open>null\<close>.
\<close>

theorem C6_missing_class_stays_null:
  "treeFor
     (loadControlsDataFromXml exampleParseFloat
        (Some (Element ''profile'' []
           [Element ''optiontree'' [(''type'', ''keyboard''), (''name'', ''root'')] []])))
     ''gamepad'' = None"
  by (simp add: loadControlsDataFromXml_def parseOptionTreesFromXml_def documentElements_def
      addOptionTree_def getAttribute_def nonEmptyAttr_def setTreeFor_def treeFor_def)

text \<open>
  C6, amended: when the XML source cannot be obtained, the builder installs the default
  data, in which each of the three device classes has a root node named \<open>root\<close> with no
  children. When a document is obtained, a device class has a tree exactly when the
  document holds an \<open>optiontree\<close> element of that type; a class without one is \<open>null\<close>.
\<close>

theorem C6_trees_after_load:
  "loadControlsDataFromXml pf None = getDefaultControlsData
   \<and> ((ty = ''keyboard'' \<or> ty = ''gamepad'' \<or> ty = ''joystick'') \<longrightarrow>
        (\<exists>n. treeFor (loadControlsDataFromXml pf None) ty = Some n
             \<and> nodeName n = ''root'' \<and> nodeChildren n = [] \<and> nodeDeviceType n = ty)
      \<and> ((treeFor (loadControlsDataFromXml pf (Some xmlDoc)) ty \<noteq> None)
         = (\<exists>tree \<in> set (documentElements xmlDoc ''optiontree'').
              getAttribute tree ''type'' = Some ty)))"
proof (intro conjI impI)
  show "loadControlsDataFromXml pf None = getDefaultControlsData"
    by (simp add: loadControlsDataFromXml_def)
next
  assume ty: "ty = ''keyboard'' \<or> ty = ''gamepad'' \<or> ty = ''joystick''"
  then show "\<exists>n. treeFor (loadControlsDataFromXml pf None) ty = Some n
             \<and> nodeName n = ''root'' \<and> nodeChildren n = [] \<and> nodeDeviceType n = ty"
    by (auto simp: loadControlsDataFromXml_def getDefaultControlsData_def treeFor_def)
next
  assume ty: "ty = ''keyboard'' \<or> ty = ''gamepad'' \<or> ty = ''joystick''"
  have "treeFor \<lparr>keyboardTree = None, gamepadTree = None, joystickTree = None\<rparr> ty = None"
    by (simp add: treeFor_def)
  then show "(treeFor (loadControlsDataFromXml pf (Some xmlDoc)) ty \<noteq> None)
         = (\<exists>tree \<in> set (documentElements xmlDoc ''optiontree'').
              getAttribute tree ''type'' = Some ty)"
    using treeFor_foldl_addOptionTree [OF ty]
    by (simp add: loadControlsDataFromXml_def parseOptionTreesFromXml_def)
qed

theorem C6_trees_after_load_witness:
  "treeFor (loadControlsDataFromXml exampleParseFloat None) ''gamepad''
     = Some (Node ''root'' ''Gamepad Settings'' None ''gamepad'' None []
               None False False None None None None)
   \<and> treeFor
       (loadControlsDataFromXml exampleParseFloat
          (Some (Element ''profile'' []
             [Element ''optiontree'' [(''type'', ''keyboard''), (''name'', ''root'')] []])))
       ''keyboard'' \<noteq> None
   \<and> treeFor
       (loadControlsDataFromXml exampleParseFloat
          (Some (Element ''profile'' []
             [Element ''optiontree'' [(''type'', ''keyboard''), (''name'', ''root'')] []])))
       ''joystick'' = None"
proof -
  let ?doc = "Element ''profile'' []
             [Element ''optiontree'' [(''type'', ''keyboard''), (''name'', ''root'')] []]"
  have els: "documentElements ?doc ''optiontree''
      = [Element ''optiontree'' [(''type'', ''keyboard''), (''name'', ''root'')] []]"
    by (simp add: documentElements_def)
  have d: "treeFor (loadControlsDataFromXml exampleParseFloat None) ''gamepad''
     = Some (Node ''root'' ''Gamepad Settings'' None ''gamepad'' None []
               None False False None None None None)"
    using C6_trees_after_load [of exampleParseFloat "''gamepad''" ?doc]
    by (simp add: getDefaultControlsData_def treeFor_def)
  have k: "treeFor (loadControlsDataFromXml exampleParseFloat (Some ?doc)) ''keyboard'' \<noteq> None"
    using C6_trees_after_load [of exampleParseFloat "''keyboard''" ?doc]
    unfolding els by (simp add: getAttribute_def)
  have j: "treeFor (loadControlsDataFromXml exampleParseFloat (Some ?doc)) ''joystick'' = None"
    using C6_trees_after_load [of exampleParseFloat "''joystick''" ?doc]
    unfolding els by (simp add: getAttribute_def)
  show ?thesis using d k j by blast
qed

section \<open>Properties of the display transformer\<close>

lemma dotted_simps [simp]: "dotted [] = []" "dotted (t # ts) = CHR ''.'' # t @ dotted ts"
  by (simp_all add: dotted_def)

lemma dotted_append [simp]: "dotted (xs @ ys) = dotted xs @ dotted ys"
  by (simp add: dotted_def)

lemma joinDot_dotted: "joinDot (a # ts) = a @ dotted ts"
  by (induction ts arbitrary: a) auto

lemma replaceFirst_skip:
  assumes "CHR ''.'' \<notin> set a" and "hd pat = CHR ''.''" and "pat \<noteq> []"
  shows "replaceFirst pat rep (a @ w) = a @ replaceFirst pat rep w"
  using assms
proof (induction a)
  case Nil
  then show ?case by simp
next
  case (Cons c a)
  then have "c \<noteq> CHR ''.''" by auto
  then have "take (length pat) (c # a @ w) \<noteq> pat"
    using Cons.prems(2,3) by (cases pat) auto
  then show ?case using Cons by simp
qed

lemma prefix_dotfree:
  assumes "CHR ''.'' \<notin> set s" and "CHR ''.'' \<notin> set q" and "w = [] \<or> hd w = CHR ''.''"
  shows "(take (Suc (length q)) (s @ w) = q @ ''.'') = (s = q \<and> w \<noteq> [] \<and> hd w = CHR ''.'')"
  using assms
proof (induction s arbitrary: q)
  case Nil
  then show ?case
    by (cases q; cases w) auto
next
  case (Cons c s)
  show ?case
  proof (cases q)
    case Nil
    then show ?thesis using Cons.prems by auto
  next
    case (Cons d q')
    then show ?thesis using Cons.IH [of q'] Cons.prems by auto
  qed
qed

lemma dotted_start: "dotted ts = [] \<or> hd (dotted ts) = CHR ''.''"
  by (cases ts) auto

lemma dotted_hd: "ts \<noteq> [] \<Longrightarrow> dotted ts \<noteq> [] \<and> hd (dotted ts) = CHR ''.''"
  by (cases ts) auto

lemma dotted_hd_iff: "(dotted ts \<noteq> [] \<and> hd (dotted ts) = CHR ''.'') = (ts \<noteq> [])"
  by (cases ts) auto

lemma replaceFirst_dotted:
  assumes "\<And>s. s \<in> set ts \<Longrightarrow> CHR ''.'' \<notin> set s" and "CHR ''.'' \<notin> set q"
  shows "replaceFirst (CHR ''.'' # q @ ''.'') (CHR ''.'' # pre @ ''.'') (dotted ts)
           = dotted (substMiddle q pre ts)"
  using assms(1)
proof (induction ts)
  case Nil
  then show ?case by simp
next
  case (Cons s ts)
  have s: "CHR ''.'' \<notin> set s" using Cons.prems by simp
  have m: "(take (Suc (length q)) (s @ dotted ts) = q @ ''.'') = (s = q \<and> ts \<noteq> [])"
    using prefix_dotfree [OF s assms(2) dotted_start [of ts]] dotted_hd_iff [of ts] by simp
  show ?case
  proof (cases "s = q \<and> ts \<noteq> []")
    case True
    then obtain t ts' where ts: "ts = t # ts'" by (cases ts) auto
    have "take (Suc (length q)) (s @ dotted ts) = q @ ''.''" using m True by simp
    then show ?thesis using True ts by simp
  next
    case False
    then have nm: "take (Suc (length q)) (s @ dotted ts) \<noteq> q @ ''.''" using m by simp
    have "replaceFirst (CHR ''.'' # q @ ''.'') (CHR ''.'' # pre @ ''.'') (s @ dotted ts)
        = s @ replaceFirst (CHR ''.'' # q @ ''.'') (CHR ''.'' # pre @ ''.'') (dotted ts)"
      by (rule replaceFirst_skip) (use s in auto)
    then show ?thesis using False nm Cons by auto
  qed
qed

lemma replaceAtEnd_hit: "replaceAtEnd pat rep (u @ pat) = u @ rep"
  by (simp add: replaceAtEnd_def)

lemma replaceAtEnd_miss:
  assumes "\<And>u. s \<noteq> u @ pat"
  shows "replaceAtEnd pat rep s = s"
proof -
  have "\<not> (length pat \<le> length s \<and> drop (length s - length pat) s = pat)"
  proof
    assume h: "length pat \<le> length s \<and> drop (length s - length pat) s = pat"
    have "s = take (length s - length pat) s @ drop (length s - length pat) s" by simp
    then have "s = take (length s - length pat) s @ pat" using h by simp
    then show False using assms by blast
  qed
  then show ?thesis unfolding replaceAtEnd_def by (rule if_not_P)
qed

lemma last_dot_unique:
  assumes "CHR ''.'' \<notin> set l" and "CHR ''.'' \<notin> set q"
    and "front @ CHR ''.'' # l = u @ CHR ''.'' # q"
  shows "l = q"
proof -
  have "rev (front @ CHR ''.'' # l) = rev (u @ CHR ''.'' # q)" using assms(3) by simp
  then have e: "rev l @ CHR ''.'' # rev front = rev q @ CHR ''.'' # rev u" by simp
  have a: "takeWhile (\<lambda>c. c \<noteq> CHR ''.'') (rev l @ CHR ''.'' # rev front) = rev l"
    using assms(1) by (auto simp: takeWhile_tail)
  have b: "takeWhile (\<lambda>c. c \<noteq> CHR ''.'') (rev q @ CHR ''.'' # rev u) = rev q"
    using assms(2) by (auto simp: takeWhile_tail)
  have "rev l = rev q" using a b e by simp
  then show ?thesis by simp
qed

lemma replaceAtEnd_dotted:
  assumes a: "CHR ''.'' \<notin> set a" and ts: "\<And>s. s \<in> set ts \<Longrightarrow> CHR ''.'' \<notin> set s"
    and q: "CHR ''.'' \<notin> set q"
  shows "replaceAtEnd (CHR ''.'' # q) (CHR ''.'' # pre) (a @ dotted ts)
           = a @ dotted (if ts \<noteq> [] \<and> last ts = q then butlast ts @ [pre] else ts)"
proof (cases "ts = []")
  case True
  have "\<And>u. a \<noteq> u @ CHR ''.'' # q" using a by auto
  then have "replaceAtEnd (CHR ''.'' # q) (CHR ''.'' # pre) a = a" by (rule replaceAtEnd_miss)
  then show ?thesis using True by simp
next
  case False
  then have split: "ts = butlast ts @ [last ts]" by simp
  have l: "CHR ''.'' \<notin> set (last ts)" using ts False by simp
  have str: "a @ dotted ts = (a @ dotted (butlast ts)) @ CHR ''.'' # last ts"
    by (subst split) simp
  show ?thesis
  proof (cases "last ts = q")
    case True
    have "replaceAtEnd (CHR ''.'' # q) (CHR ''.'' # pre) ((a @ dotted (butlast ts)) @ CHR ''.'' # q)
        = (a @ dotted (butlast ts)) @ CHR ''.'' # pre"
      by (rule replaceAtEnd_hit)
    then show ?thesis using True False str by simp
  next
    case ne: False
    have "\<And>u. a @ dotted ts \<noteq> u @ CHR ''.'' # q"
    proof
      fix u assume "a @ dotted ts = u @ CHR ''.'' # q"
      then have "(a @ dotted (butlast ts)) @ CHR ''.'' # last ts = u @ CHR ''.'' # q"
        using str by simp
      then have "last ts = q" using last_dot_unique [OF l q] by blast
      then show False using ne by simp
    qed
    then have "replaceAtEnd (CHR ''.'' # q) (CHR ''.'' # pre) (a @ dotted ts) = a @ dotted ts"
      by (rule replaceAtEnd_miss)
    then show ?thesis using ne by simp
  qed
qed

lemma replaceAtStart_dotted:
  assumes a: "CHR ''.'' \<notin> set a" and q: "CHR ''.'' \<notin> set q"
  shows "replaceAtStart (q @ ''.'') (pre @ ''.'') (a @ dotted ts)
           = (if a = q \<and> ts \<noteq> [] then pre else a) @ dotted ts"
proof -
  have m: "(take (Suc (length q)) (a @ dotted ts) = q @ ''.'') = (a = q \<and> ts \<noteq> [])"
    using prefix_dotfree [OF a q dotted_start [of ts]] dotted_hd_iff [of ts] by simp
  show ?thesis
  proof (cases "a = q \<and> ts \<noteq> []")
    case True
    then obtain t ts' where "ts = t # ts'" by (cases ts) auto
    then show ?thesis using True m by (simp add: replaceAtStart_def)
  next
    case False
    then show ?thesis using m by (auto simp: replaceAtStart_def)
  qed
qed

lemma replaceWhole_dotted:
  assumes q: "CHR ''.'' \<notin> set q"
  shows "replaceWhole q pre (a @ dotted ts) = (if a = q \<and> ts = [] then pre else a @ dotted ts)"
proof (cases ts)
  case Nil
  then show ?thesis by (simp add: replaceWhole_def)
next
  case (Cons t ts')
  then have "CHR ''.'' \<in> set (a @ dotted ts)" by simp
  then have "a @ dotted ts \<noteq> q" using q by metis
  then show ?thesis using Cons by (simp add: replaceWhole_def)
qed

lemma substMiddle_snoc: "substMiddle q pre (m @ [l]) = substFirst q pre m @ [l]"
  by (induction m) auto

lemma substFirst_map:
  "count_list m q \<le> 1 \<Longrightarrow> substFirst q pre m = map (\<lambda>s. if s = q then pre else s) m"
proof (induction m)
  case Nil
  then show ?case by simp
next
  case (Cons s m)
  show ?case
  proof (cases "s = q")
    case True
    then have "count_list m q = 0" using Cons.prems by simp
    then have "q \<notin> set m" by (simp add: count_list_0_iff)
    then have "map (\<lambda>s. if s = q then pre else s) m = m"
      by (induction m) auto
    then show ?thesis using True by simp
  next
    case False
    then show ?thesis using Cons by simp
  qed
qed

lemma substFirst_dotfree:
  "CHR ''.'' \<notin> set pre \<Longrightarrow> (\<And>s. s \<in> set m \<Longrightarrow> CHR ''.'' \<notin> set s)
     \<Longrightarrow> s \<in> set (substFirst q pre m) \<Longrightarrow> CHR ''.'' \<notin> set s"
  by (induction m arbitrary: s) (auto split: if_splits)

lemma rewrite_segments:
  assumes a: "CHR ''.'' \<notin> set a" and ts: "\<And>s. s \<in> set ts \<Longrightarrow> CHR ''.'' \<notin> set s"
    and pre: "CHR ''.'' \<notin> set pre"
    and cnt: "count_list (butlast ts) ''inversion'' \<le> 1"
  shows "rewritePath pre (joinDot (a # ts))
           = joinDot (map (\<lambda>s. if s = ''inversion'' then pre else s) (a # ts))"
proof -
  let ?q = "''inversion''"
  let ?f = "\<lambda>s. if s = ?q then pre else s"
  have q: "CHR ''.'' \<notin> set ?q" by simp
  have pats: "''.inversion.'' = CHR ''.'' # ?q @ ''.''" "''inversion.'' = ?q @ ''.''"
    "''.inversion'' = CHR ''.'' # ?q" by simp_all
  have r1: "replaceFirst ''.inversion.'' (''.'' @ pre @ ''.'') (joinDot (a # ts))
      = a @ dotted (substMiddle ?q pre ts)"
  proof -
    have "replaceFirst (CHR ''.'' # ?q @ ''.'') (CHR ''.'' # pre @ ''.'') (a @ dotted ts)
        = a @ replaceFirst (CHR ''.'' # ?q @ ''.'') (CHR ''.'' # pre @ ''.'') (dotted ts)"
      by (rule replaceFirst_skip) (use a in auto)
    also have "\<dots> = a @ dotted (substMiddle ?q pre ts)"
      using replaceFirst_dotted [OF ts q] by simp
    finally show ?thesis by (simp add: joinDot_dotted)
  qed
  show ?thesis
  proof (cases "ts = []")
    case True
    have "replaceAtEnd ''.inversion'' (''.'' @ pre) a = a"
      using replaceAtEnd_dotted [OF a _ q, where ts = "[]" and pre = pre] by simp
    moreover have "replaceAtStart ''inversion.'' (pre @ ''.'') a = a"
      using replaceAtStart_dotted [OF a q, where ts = "[]" and pre = pre] by simp
    moreover have "replaceWhole ?q pre a = ?f a"
      by (simp add: replaceWhole_def)
    ultimately show ?thesis using True r1 by (simp add: rewritePath_def)
  next
    case False
    define m where "m = butlast ts"
    define l where "l = last ts"
    have tsml: "ts = m @ [l]" using False by (simp add: m_def l_def)
    have mdf: "\<And>s. s \<in> set m \<Longrightarrow> CHR ''.'' \<notin> set s" using ts tsml by simp
    have ldf: "CHR ''.'' \<notin> set l" using ts tsml by simp
    let ?m1 = "substFirst ?q pre m"
    have m1: "?m1 = map ?f m" using cnt substFirst_map unfolding m_def by blast
    have ts1: "substMiddle ?q pre ts = ?m1 @ [l]" by (simp add: tsml substMiddle_snoc)
    have df1: "\<And>s. s \<in> set (?m1 @ [l]) \<Longrightarrow> CHR ''.'' \<notin> set s"
      using substFirst_dotfree [OF pre mdf] ldf by auto
    have "replaceAtEnd (CHR ''.'' # ?q) (CHR ''.'' # pre) (a @ dotted (?m1 @ [l]))
        = a @ dotted (if ?m1 @ [l] \<noteq> [] \<and> last (?m1 @ [l]) = ?q
                      then butlast (?m1 @ [l]) @ [pre] else ?m1 @ [l])"
    proof (rule replaceAtEnd_dotted)
      show "CHR ''.'' \<notin> set a" by (rule a)
      show "CHR ''.'' \<notin> set ?q" by (rule q)
      show "\<And>s. s \<in> set (?m1 @ [l]) \<Longrightarrow> CHR ''.'' \<notin> set s" by (rule df1)
    qed
    then have r2: "replaceAtEnd ''.inversion'' (''.'' @ pre) (a @ dotted (?m1 @ [l]))
        = a @ dotted (?m1 @ [?f l])"
      by (cases "l = ?q") simp_all
    have r3: "replaceAtStart ''inversion.'' (pre @ ''.'') (a @ dotted (?m1 @ [?f l]))
        = ?f a @ dotted (?m1 @ [?f l])"
      using replaceAtStart_dotted [OF a q, where pre = pre and ts = "?m1 @ [?f l]"] by simp
    have r4: "replaceWhole ?q pre (?f a @ dotted (?m1 @ [?f l])) = ?f a @ dotted (?m1 @ [?f l])"
    proof -
      have "CHR ''.'' \<in> set (?f a @ dotted (?m1 @ [?f l]))" by simp
      then have "?f a @ dotted (?m1 @ [?f l]) \<noteq> ?q" using q by metis
      then show ?thesis by (simp add: replaceWhole_def)
    qed
    have "rewritePath pre (joinDot (a # ts)) = ?f a @ dotted (?m1 @ [?f l])"
      unfolding rewritePath_def r1 ts1 r2 r3 r4 ..
    also have "\<dots> = joinDot (map ?f (a # ts))"
      by (simp add: joinDot_dotted tsml m1 del: joinDot.simps)
    finally show ?thesis .
  qed
qed

lemma rewritePath_replaceSegment:
  assumes "count_list (butlast (tl (splitDot p))) ''inversion'' \<le> 1"
  shows "rewritePath ''sensitivity_curves'' p
           = replaceSegment ''inversion'' ''sensitivity_curves'' p"
proof -
  obtain a ts where sp: "splitDot p = a # ts"
    using splitDot_nonempty [of p] by (cases "splitDot p") auto
  have df: "\<And>s. s \<in> set (a # ts) \<Longrightarrow> CHR ''.'' \<notin> set s"
    using splitDot_dotfree [of _ p] sp by simp
  have "rewritePath ''sensitivity_curves'' (joinDot (a # ts))
           = joinDot (map (\<lambda>s. if s = ''inversion'' then ''sensitivity_curves'' else s) (a # ts))"
    by (rule rewrite_segments) (use df assms sp in auto)
  moreover have "joinDot (a # ts) = p" using joinDot_splitDot [of p] sp by simp
  ultimately show ?thesis by (simp add: replaceSegment_def sp)
qed

lemma rewritePath_empty: "rewritePath pre [] = []"
  by (simp add: rewritePath_def replaceAtEnd_def replaceAtStart_def replaceWhole_def)

lemma markSectionType_path:
  "pre \<noteq> [] \<Longrightarrow> nodePath (markSectionType n st (Some pre)) = map_option (rewritePath pre) (nodePath n)"
  by (cases n) (auto simp: nonEmptyAttr_def rewritePath_empty split: option.splits)

lemma preorder_paths_markSectionType:
  "pre \<noteq> [] \<Longrightarrow> map nodePath (preorder (markSectionType n st (Some pre)))
     = map (map_option (rewritePath pre)) (map nodePath (preorder n))"
proof (induction n)
  case (Node nm lb pa dt ats ch sct sec dis dr ins smin smax)
  have "map nodePath (concat (map preorder (map (\<lambda>c. markSectionType c st (Some pre)) ch)))
      = map (map_option (rewritePath pre)) (map nodePath (concat (map preorder ch)))"
    using Node by (induction ch) auto
  then show ?case using Node.prems
    by (auto simp: nonEmptyAttr_def rewritePath_empty split: option.splits)
qed

lemma preorder_paths_markDisabled:
  "map nodePath (preorder (markDisabled n)) = map nodePath (preorder n)"
proof (induction n)
  case (Node nm lb pa dt ats ch sct sec dis dr ins smin smax)
  have "map nodePath (concat (map preorder (map markDisabled ch)))
      = map nodePath (concat (map preorder ch))"
    using Node by (induction ch) auto
  then show ?case by simp
qed

lemma preorder_paths_jsonClone:
  "map nodePath (preorder (jsonClone n)) = map nodePath (preorder n)"
proof (induction n)
  case (Node nm lb pa dt ats ch sct sec dis dr ins smin smax)
  have "map nodePath (concat (map preorder (map jsonClone ch)))
      = map nodePath (concat (map preorder ch))"
    using Node by (induction ch) auto
  then show ?case by simp
qed

lemma curvesSection_children:
  "nodeChildren (curvesSection invNode dt)
     = map (\<lambda>c. markDisabled (markSectionType (jsonClone c) ''curves'' (Some ''sensitivity_curves'')))
         (nodeChildren invNode)"
  by (cases invNode) (simp add: curvesSection_def)

lemma curvesSection_root:
  "nodePath (curvesSection invNode dt) = Some ''sensitivity_curves''
   \<and> nodeName (curvesSection invNode dt) = ''sensitivity_curves''"
  by (cases invNode) (simp add: curvesSection_def)

lemma curvesSection_paths:
  "map nodePath (concat (map preorder (nodeChildren (curvesSection invNode dt))))
     = map (map_option (rewritePath ''sensitivity_curves''))
         (map nodePath (concat (map preorder (nodeChildren invNode))))"
proof -
  have one: "map nodePath (preorder (markDisabled (markSectionType (jsonClone c) ''curves''
                 (Some ''sensitivity_curves''))))
      = map (map_option (rewritePath ''sensitivity_curves'')) (map nodePath (preorder c))" for c
    using preorder_paths_markSectionType [of "''sensitivity_curves''" "jsonClone c" "''curves''"]
    by (simp add: preorder_paths_markDisabled preorder_paths_jsonClone)
  have "map nodePath (concat (map preorder (map (\<lambda>c. markDisabled (markSectionType (jsonClone c)
              ''curves'' (Some ''sensitivity_curves''))) ch)))
      = map (map_option (rewritePath ''sensitivity_curves'')) (map nodePath (concat (map preorder ch)))"
    for ch
    using one by (induction ch) auto
  then show ?thesis by (simp only: curvesSection_children)
qed

lemma transform_two_sections:
  assumes "deviceType = ''joystick'' \<or> deviceType = ''gamepad''"
    and "find (\<lambda>c. nodeName c = ''inversion'') (nodeChildren (contentNodeOf rawData)) = Some invNode"
  shows "transformToSCHierarchy (Some rawData) deviceType =
     Some (Node ''root''
        (if deviceType = ''joystick'' then ''Joystick Controls'' else ''Gamepad Controls'')
        (Some ''root'') deviceType None
        [inversionSection invNode, curvesSection invNode deviceType]
        None False False None
        (Some (instancesOrOne rawData)) (sensitivityMin rawData) (sensitivityMax rawData))"
  using assms by (auto simp: transformToSCHierarchy_def Let_def)

text \<open>
  C5, as stated: in the sensitivity-curves copy every occurrence of the segment
  \<open>inversion\<close> is replaced in every node's path. In the joystick tree
  \<open>r > inversion > a > inversion > b\<close> the copy of \<open>b\<close> has the path
  \<open>r.sensitivity_curves.a.inversion.b\<close>: each pattern replaces its first match only, and
  the second middle occurrence stays.
\<close>

theorem C5_second_middle_occurrence_stays:
  "joystickTree
     (parseOptionTreesFromXml exampleParseFloat
        (Element ''optiontree'' [(''type'', ''joystick''), (''name'', ''r'')]
           [Element ''optiongroup'' [(''name'', ''inversion'')]
              [Element ''optiongroup'' [(''name'', ''a'')]
                 [Element ''optiongroup'' [(''name'', ''inversion'')]
                    [Element ''optiongroup'' [(''name'', ''b'')] []]]]]))
   = Some (Node ''root'' ''Joystick Controls'' (Some ''root'') ''joystick'' None
       [Node ''inversion'' ''@ui_COInversionSettings'' (Some ''r.inversion'') ''joystick'' plainAttrs
          [Node ''a'' ''a'' (Some ''r.inversion.a'') ''joystick'' plainAttrs
             [Node ''inversion'' ''inversion'' (Some ''r.inversion.a.inversion'') ''joystick'' plainAttrs
                [Node ''b'' ''b'' (Some ''r.inversion.a.inversion.b'') ''joystick'' plainAttrs []
                   (Some ''inversion'') False False None None None None]
                (Some ''inversion'') False False None None None None]
             (Some ''inversion'') False False None None None None]
          (Some ''inversion'') True False None None None None,
        Node ''sensitivity_curves'' ''@ui_COMasterSensitivityCurvesJoystick''
          (Some ''sensitivity_curves'') ''joystick'' plainAttrs
          [Node ''a'' ''a'' (Some ''r.sensitivity_curves.a'') ''joystick'' plainAttrs
             [Node ''inversion'' ''inversion'' (Some ''r.sensitivity_curves.a.sensitivity_curves'')
                ''joystick'' plainAttrs
                [Node ''b'' ''b'' (Some ''r.sensitivity_curves.a.inversion.b'') ''joystick'' plainAttrs []
                   (Some ''curves'') False True (Some disabledText) None None None]
                (Some ''curves'') False True (Some disabledText) None None None]
             (Some ''curves'') False True (Some disabledText) None None None]
          (Some ''curves'') True True (Some disabledText) None None None]
       None False False None (Some 1) (Some (Finite (1 / 100))) (Some (Finite 2)))
   \<and> rewritePath ''sensitivity_curves'' ''r.inversion.a.inversion.b''
       = ''r.sensitivity_curves.a.inversion.b''
   \<and> replaceSegment ''inversion'' ''sensitivity_curves'' ''r.inversion.a.inversion.b''
       = ''r.sensitivity_curves.a.sensitivity_curves.b''"
  by (simp add: parseOptionTreesFromXml_def documentElements_def
      addOptionTree_def getAttribute_def nonEmptyAttr_def setTreeFor_def transformToSCHierarchy_def
      rawTree_def contentNodeOf_def parseVisibility_def attrFloat_def floatOrNull_def
      inversionSection_def curvesSection_def jsonAttrs_def jsonNumber_def instancesOrOne_def
      rewritePath_def replaceAtEnd_def replaceAtStart_def replaceWhole_def replaceSegment_def)

text \<open>
  C5, amended. For a gamepad or joystick tree with an inversion node the transformer
  returns a root over the inversion section and the sensitivity-curves section. The
  root of the curves section has the path \<open>sensitivity_curves\<close>; every node below it has
  the path of the node it copies, rewritten by the four patterns of \<open>markSectionType\<close>.
  That rewriting replaces every occurrence of the segment \<open>inversion\<close> by
  \<open>sensitivity_curves\<close> in each path that has at most one occurrence strictly between
  its first and its last segment: the segment as the whole path, as leading segment, as
  trailing segment, or as a middle segment.
\<close>

theorem C5_curves_section_paths:
  "((deviceType = ''joystick'' \<or> deviceType = ''gamepad'')
      \<and> find (\<lambda>c. nodeName c = ''inversion'') (nodeChildren (contentNodeOf rawData))
          = Some inversionNode
    \<longrightarrow> transformToSCHierarchy (Some rawData) deviceType =
         Some (Node ''root''
           (if deviceType = ''joystick'' then ''Joystick Controls'' else ''Gamepad Controls'')
           (Some ''root'') deviceType None
           [inversionSection inversionNode, curvesSection inversionNode deviceType]
           None False False None
           (Some (instancesOrOne rawData)) (sensitivityMin rawData) (sensitivityMax rawData)))
   \<and> nodePath (curvesSection inversionNode deviceType) = Some ''sensitivity_curves''
   \<and> map nodePath (concat (map preorder (nodeChildren (curvesSection inversionNode deviceType))))
       = map (map_option (rewritePath ''sensitivity_curves''))
           (map nodePath (concat (map preorder (nodeChildren inversionNode))))
   \<and> (count_list (butlast (tl (splitDot p))) ''inversion'' \<le> 1
    \<longrightarrow> rewritePath ''sensitivity_curves'' p
         = replaceSegment ''inversion'' ''sensitivity_curves'' p)"
  using transform_two_sections [of deviceType rawData inversionNode]
    curvesSection_root [of inversionNode deviceType]
    curvesSection_paths [of inversionNode deviceType]
    rewritePath_replaceSegment [of p]
  by blast

theorem C5_curves_section_paths_witness:
  "rewritePath ''sensitivity_curves'' ''inversion'' = ''sensitivity_curves''
   \<and> rewritePath ''sensitivity_curves'' ''inversion.pitch'' = ''sensitivity_curves.pitch''
   \<and> rewritePath ''sensitivity_curves'' ''r.inversion'' = ''r.sensitivity_curves''
   \<and> rewritePath ''sensitivity_curves'' ''r.inversion.pitch'' = ''r.sensitivity_curves.pitch''
   \<and> rewritePath ''sensitivity_curves'' ''inversion.a.inversion.b.inversion''
       = ''sensitivity_curves.a.sensitivity_curves.b.sensitivity_curves''
   \<and> transformToSCHierarchy
       (Some (Node ''r'' ''r'' (Some ''r'') ''gamepad'' plainAttrs
          [Node ''inversion'' ''inversion'' (Some ''r.inversion'') ''gamepad'' plainAttrs
             [Node ''pitch'' ''pitch'' (Some ''r.inversion.pitch'') ''gamepad'' plainAttrs []
                None False False None None None None]
             None False False None None None None]
          None False False None (Some 2) (Some (Finite (1 / 100))) (Some (Finite 2))))
       ''gamepad''
     = Some (Node ''root'' ''Gamepad Controls'' (Some ''root'') ''gamepad'' None
         [Node ''inversion'' ''@ui_COInversionSettings'' (Some ''r.inversion'') ''gamepad'' plainAttrs
            [Node ''pitch'' ''pitch'' (Some ''r.inversion.pitch'') ''gamepad'' plainAttrs []
               (Some ''inversion'') False False None None None None]
            (Some ''inversion'') True False None None None None,
          Node ''sensitivity_curves'' ''@ui_COMasterSensitivityCurvesThumb''
            (Some ''sensitivity_curves'') ''gamepad'' plainAttrs
            [Node ''pitch'' ''pitch'' (Some ''r.sensitivity_curves.pitch'') ''gamepad'' plainAttrs []
               (Some ''curves'') False True (Some disabledText) None None None]
            (Some ''curves'') True True (Some disabledText) None None None]
         None False False None (Some 2) (Some (Finite (1 / 100))) (Some (Finite 2)))"
proof -
  let ?leaf = "Node ''pitch'' ''pitch'' (Some ''r.inversion.pitch'') ''gamepad'' plainAttrs []
                None False False None None None None"
  let ?inv = "Node ''inversion'' ''inversion'' (Some ''r.inversion'') ''gamepad'' plainAttrs
             [?leaf] None False False None None None None"
  let ?raw = "Node ''r'' ''r'' (Some ''r'') ''gamepad'' plainAttrs [?inv]
          None False False None (Some 2) (Some (Finite (1 / 100))) (Some (Finite 2))"
  have c: "count_list (butlast (tl (splitDot ''inversion''))) ''inversion'' \<le> 1"
    "count_list (butlast (tl (splitDot ''inversion.pitch''))) ''inversion'' \<le> 1"
    "count_list (butlast (tl (splitDot ''r.inversion''))) ''inversion'' \<le> 1"
    "count_list (butlast (tl (splitDot ''r.inversion.pitch''))) ''inversion'' \<le> 1"
    "count_list (butlast (tl (splitDot ''inversion.a.inversion.b.inversion''))) ''inversion'' \<le> 1"
    by simp_all
  have r1: "rewritePath ''sensitivity_curves'' ''inversion'' = ''sensitivity_curves''"
    using C5_curves_section_paths [of "''gamepad''" ?raw ?inv "''inversion''"] c(1)
    by (simp add: replaceSegment_def)
  have r2: "rewritePath ''sensitivity_curves'' ''inversion.pitch'' = ''sensitivity_curves.pitch''"
    using C5_curves_section_paths [of "''gamepad''" ?raw ?inv "''inversion.pitch''"] c(2)
    by (simp add: replaceSegment_def)
  have r3: "rewritePath ''sensitivity_curves'' ''r.inversion'' = ''r.sensitivity_curves''"
    using C5_curves_section_paths [of "''gamepad''" ?raw ?inv "''r.inversion''"] c(3)
    by (simp add: replaceSegment_def)
  have r4: "rewritePath ''sensitivity_curves'' ''r.inversion.pitch'' = ''r.sensitivity_curves.pitch''"
    using C5_curves_section_paths [of "''gamepad''" ?raw ?inv "''r.inversion.pitch''"] c(4)
    by (simp add: replaceSegment_def)
  have r5: "rewritePath ''sensitivity_curves'' ''inversion.a.inversion.b.inversion''
       = ''sensitivity_curves.a.sensitivity_curves.b.sensitivity_curves''"
    using C5_curves_section_paths
      [of "''gamepad''" ?raw ?inv "''inversion.a.inversion.b.inversion''"] c(5)
    by (simp add: replaceSegment_def)
  have f: "find (\<lambda>c. nodeName c = ''inversion'') (nodeChildren (contentNodeOf ?raw)) = Some ?inv"
    by (simp add: contentNodeOf_def)
  have "transformToSCHierarchy (Some ?raw) ''gamepad'' =
         Some (Node ''root'' ''Gamepad Controls'' (Some ''root'') ''gamepad'' None
           [inversionSection ?inv, curvesSection ?inv ''gamepad'']
           None False False None
           (Some (instancesOrOne ?raw)) (sensitivityMin ?raw) (sensitivityMax ?raw))"
    using C5_curves_section_paths [of "''gamepad''" ?raw ?inv "''inversion''"] f by simp
  then have t: "transformToSCHierarchy (Some ?raw) ''gamepad''
     = Some (Node ''root'' ''Gamepad Controls'' (Some ''root'') ''gamepad'' None
         [Node ''inversion'' ''@ui_COInversionSettings'' (Some ''r.inversion'') ''gamepad'' plainAttrs
            [Node ''pitch'' ''pitch'' (Some ''r.inversion.pitch'') ''gamepad'' plainAttrs []
               (Some ''inversion'') False False None None None None]
            (Some ''inversion'') True False None None None None,
          Node ''sensitivity_curves'' ''@ui_COMasterSensitivityCurvesThumb''
            (Some ''sensitivity_curves'') ''gamepad'' plainAttrs
            [Node ''pitch'' ''pitch'' (Some ''r.sensitivity_curves.pitch'') ''gamepad'' plainAttrs []
               (Some ''curves'') False True (Some disabledText) None None None]
            (Some ''curves'') True True (Some disabledText) None None None]
         None False False None (Some 2) (Some (Finite (1 / 100))) (Some (Finite 2)))"
    by (simp add: inversionSection_def curvesSection_def jsonAttrs_def jsonNumber_def
        instancesOrOne_def nonEmptyAttr_def r4)
  show ?thesis using r1 r2 r3 r4 r5 t by blast
qed

section \<open>Properties of the search by name and of the load keys\<close>

lemma find_append: "find P (xs @ ys) = (case find P xs of None \<Rightarrow> find P ys | Some x \<Rightarrow> Some x)"
  by (induction xs) auto

lemma findNodeByName_preorder:
  "target \<noteq> [] \<Longrightarrow> findNodeByName n target = find (\<lambda>x. nodeName x = target) (preorder n)"
  "target \<noteq> [] \<Longrightarrow> findInChildren ch target = find (\<lambda>x. nodeName x = target) (concat (map preorder ch))"
proof (induction n target and ch target rule: findNodeByName_findInChildren.induct)
  case (1 nm lb pa dt ats ch st sec dis dr ins smin smax target)
  then show ?case by simp
next
  case (2 target)
  then show ?case by simp
next
  case (3 child rest target)
  then show ?case by (simp add: find_append split: option.splits)
qed

lemma preorder_names_markSectionType:
  "map nodeName (preorder (markSectionType n st pp)) = map nodeName (preorder n)"
proof (induction n)
  case (Node nm lb pa dt ats ch sct sec dis dr ins smin smax)
  have "map nodeName (concat (map preorder (map (\<lambda>c. markSectionType c st pp) ch)))
      = map nodeName (concat (map preorder ch))"
    using Node by (induction ch) auto
  then show ?case by simp
qed

lemma preorder_names_jsonClone:
  "map nodeName (preorder (jsonClone n)) = map nodeName (preorder n)"
proof (induction n)
  case (Node nm lb pa dt ats ch sct sec dis dr ins smin smax)
  have "map nodeName (concat (map preorder (map jsonClone ch)))
      = map nodeName (concat (map preorder ch))"
    using Node by (induction ch) auto
  then show ?case by simp
qed

lemma preorder_section_markSectionType:
  "x \<in> set (preorder (markSectionType n st pp)) \<Longrightarrow> sectionType x = Some st"
proof (induction n arbitrary: x)
  case (Node nm lb pa dt ats ch sct sec dis dr ins smin smax)
  then show ?case by auto
qed

lemma inversionSection_names:
  "map nodeName (preorder (inversionSection invNode)) = map nodeName (preorder invNode)"
proof -
  have "map nodeName (preorder (setIsSection True (setLabel l n))) = map nodeName (preorder n)" for l n
    by (cases n) simp
  then show ?thesis
    by (simp add: inversionSection_def preorder_names_markSectionType preorder_names_jsonClone)
qed

lemma inversionSection_sections:
  assumes "x \<in> set (preorder (inversionSection invNode))"
  shows "sectionType x = Some ''inversion''"
proof -
  let ?m = "markSectionType (jsonClone invNode) ''inversion'' None"
  have root: "sectionType (setIsSection True (setLabel l ?m)) = Some ''inversion''" for l
    by (cases invNode) simp
  have "set (preorder (setIsSection True (setLabel l n)))
      \<subseteq> insert (setIsSection True (setLabel l n)) (set (preorder n))" for l n
    by (cases n) auto
  then have "x = inversionSection invNode \<or> x \<in> set (preorder ?m)"
    using assms unfolding inversionSection_def by blast
  then show ?thesis
    using root preorder_section_markSectionType [of x "jsonClone invNode" "''inversion''" None]
    by (auto simp: inversionSection_def)
qed

lemma find_in_display_root:
  assumes t: "target \<noteq> []" and r: "target \<noteq> ''root''"
    and m: "target \<in> set (map nodeName (preorder (inversionSection invNode)))"
  shows "\<exists>n. find (\<lambda>x. nodeName x = target) (preorder (inversionSection invNode)) = Some n
      \<and> findNodeByName (Node ''root'' lb pa dt ats [inversionSection invNode, other]
            st sec dis dr ins smin smax) target = Some n"
proof -
  have "find (\<lambda>x. nodeName x = target) (preorder (inversionSection invNode)) \<noteq> None"
    using m by (auto simp: find_None_iff)
  then obtain n where n: "find (\<lambda>x. nodeName x = target) (preorder (inversionSection invNode)) = Some n"
    by blast
  have "findNodeByName (Node ''root'' lb pa dt ats [inversionSection invNode, other]
            st sec dis dr ins smin smax) target
      = find (\<lambda>x. nodeName x = target) (preorder (Node ''root'' lb pa dt ats
            [inversionSection invNode, other] st sec dis dr ins smin smax))"
    using t by (rule findNodeByName_preorder(1))
  also have "\<dots> = Some n"
    using r n by (simp add: find_append)
  finally show ?thesis using n by blast
qed

lemma load_single_option:
  "loadControlSettings pf cdo st
     (Some [\<lparr>device_type = deviceType, instance_number = i, control_options = Some [opt]\<rparr>])
   = (if deviceType = ''joystick''
      then Inr (st\<lparr>userSettings := emptySettings
             \<lparr>joystick := [(showNat (if i = 0 then 1 else i),
                 JObj [(fullPathFor cdo deviceType (option_name opt), JObj (loadedSettings pf opt))])]\<rparr>\<rparr>)
      else Inr (st\<lparr>userSettings :=
             setDeviceSettings emptySettings deviceType
               [(fullPathFor cdo deviceType (option_name opt), JObj (loadedSettings pf opt))]\<rparr>))"
  by (simp add: loadControlSettings_def storeOption_def emptySettings_def Let_def
      deviceSettings_def)

text \<open>
  C10, as stated: every flat-list entry whose name occurs in both sections is keyed under
  the path of the inversion-section node. The search starts at the display root, whose
  name is \<open>root\<close>; \<open>parseOptionGroup\<close> also names a group without a name attribute
  \<open>root\<close>. With such a group in the inversion subtree, an entry named \<open>root\<close> is keyed
  under the display root's path \<open>root\<close>, not under the path \<open>r.inversion.null\<close> of the
  inversion-section node of that name.
\<close>

theorem C10_entry_named_root:
  "parseOptionTreesFromXml exampleParseFloat
     (Element ''optiontree'' [(''type'', ''joystick''), (''name'', ''r'')]
        [Element ''optiongroup'' [(''name'', ''inversion'')]
           [Element ''optiongroup'' [] []]])
   = \<lparr>keyboardTree = None, gamepadTree = None,
      joystickTree =
        Some (Node ''root'' ''Joystick Controls'' (Some ''root'') ''joystick'' None
          [Node ''inversion'' ''@ui_COInversionSettings'' (Some ''r.inversion'') ''joystick'' plainAttrs
             [Node ''root'' ''Unknown'' (Some ''r.inversion.null'') ''joystick'' plainAttrs []
                (Some ''inversion'') False False None None None None]
             (Some ''inversion'') True False None None None None,
           Node ''sensitivity_curves'' ''@ui_COMasterSensitivityCurvesJoystick''
             (Some ''sensitivity_curves'') ''joystick'' plainAttrs
             [Node ''root'' ''Unknown'' (Some ''r.sensitivity_curves.null'') ''joystick'' plainAttrs []
                (Some ''curves'') False True (Some disabledText) None None None]
             (Some ''curves'') True True (Some disabledText) None None None]
          None False False None (Some 1) (Some (Finite (1 / 100))) (Some (Finite 2)))\<rparr>
   \<and> fullPathFor
       (Some (parseOptionTreesFromXml exampleParseFloat
          (Element ''optiontree'' [(''type'', ''joystick''), (''name'', ''r'')]
             [Element ''optiongroup'' [(''name'', ''inversion'')]
                [Element ''optiongroup'' [] []]])))
       ''joystick'' ''root'' = ''root''"
  by (simp add: parseOptionTreesFromXml_def documentElements_def
      addOptionTree_def getAttribute_def nonEmptyAttr_def setTreeFor_def transformToSCHierarchy_def
      rawTree_def contentNodeOf_def parseVisibility_def attrFloat_def floatOrNull_def
      inversionSection_def curvesSection_def jsonAttrs_def jsonNumber_def instancesOrOne_def
      rewritePath_def replaceAtEnd_def replaceAtStart_def replaceWhole_def
      fullPathFor_def treeFor_def)

text \<open>
  C10, amended. \<open>findNodeByName\<close> returns the first node in depth-first preorder whose
  name is the target. In the tree the transformer builds for a gamepad or joystick with an
  inversion node, for every name other than \<open>root\<close> that a node of the inversion section
  has, the node found is the first such node of the inversion section, whose section type
  is \<open>inversion\<close>; \<open>loadControlSettings\<close> keys an entry of that name under that node's
  path (under the bare name if the path is empty), as the load of a single such entry
  shows, and so never under a path of the sensitivity-curves section.
\<close>

theorem C10_loading_keys_inversion_section:
  "(target \<noteq> [] \<longrightarrow>
      findNodeByName t target = find (\<lambda>x. nodeName x = target) (preorder t))
   \<and> ((deviceType = ''joystick'' \<or> deviceType = ''gamepad'')
      \<and> find (\<lambda>c. nodeName c = ''inversion'') (nodeChildren (contentNodeOf rawData))
          = Some inversionNode
      \<and> treeFor cd deviceType = transformToSCHierarchy (Some rawData) deviceType
      \<and> target \<noteq> [] \<and> target \<noteq> ''root''
      \<and> target \<in> set (map nodeName (preorder (inversionSection inversionNode)))
      \<and> option_name opt = target
    \<longrightarrow> (\<exists>n. find (\<lambda>x. nodeName x = target) (preorder (inversionSection inversionNode)) = Some n
           \<and> sectionType n = Some ''inversion''
           \<and> fullPathFor (Some cd) deviceType target
               = (case nonEmptyAttr (nodePath n) of Some p \<Rightarrow> p | None \<Rightarrow> target)
           \<and> loadControlSettings pf (Some cd) st
                (Some [\<lparr>device_type = deviceType, instance_number = i,
                        control_options = Some [opt]\<rparr>])
               = Inr (st\<lparr>userSettings :=
                   (if deviceType = ''joystick''
                    then emptySettings
                      \<lparr>joystick := [(showNat (if i = 0 then 1 else i),
                          JObj [(case nonEmptyAttr (nodePath n) of Some p \<Rightarrow> p | None \<Rightarrow> target,
                                 JObj (loadedSettings pf opt))])]\<rparr>
                    else emptySettings
                      \<lparr>gamepad := [(case nonEmptyAttr (nodePath n) of Some p \<Rightarrow> p | None \<Rightarrow> target,
                                     JObj (loadedSettings pf opt))]\<rparr>)\<rparr>)))"
proof (intro conjI impI)
  assume "target \<noteq> []"
  then show "findNodeByName t target = find (\<lambda>x. nodeName x = target) (preorder t)"
    by (rule findNodeByName_preorder(1))
next
  assume h: "(deviceType = ''joystick'' \<or> deviceType = ''gamepad'')
      \<and> find (\<lambda>c. nodeName c = ''inversion'') (nodeChildren (contentNodeOf rawData))
          = Some inversionNode
      \<and> treeFor cd deviceType = transformToSCHierarchy (Some rawData) deviceType
      \<and> target \<noteq> [] \<and> target \<noteq> ''root''
      \<and> target \<in> set (map nodeName (preorder (inversionSection inversionNode)))
      \<and> option_name opt = target"
  let ?root = "Node ''root''
        (if deviceType = ''joystick'' then ''Joystick Controls'' else ''Gamepad Controls'')
        (Some ''root'') deviceType None
        [inversionSection inversionNode, curvesSection inversionNode deviceType]
        None False False None
        (Some (instancesOrOne rawData)) (sensitivityMin rawData) (sensitivityMax rawData)"
  have tree: "treeFor cd deviceType = Some ?root"
    using h transform_two_sections [of deviceType rawData inversionNode] by simp
  obtain n where n: "find (\<lambda>x. nodeName x = target) (preorder (inversionSection inversionNode)) = Some n"
    and f: "findNodeByName ?root target = Some n"
    using find_in_display_root [of target inversionNode] h by blast
  have "n \<in> set (preorder (inversionSection inversionNode))"
    using n by (auto simp: find_Some_iff)
  then have sec: "sectionType n = Some ''inversion''"
    by (rule inversionSection_sections)
  have key: "fullPathFor (Some cd) deviceType target
               = (case nonEmptyAttr (nodePath n) of Some p \<Rightarrow> p | None \<Rightarrow> target)"
    using tree f by (simp add: fullPathFor_def)
  have ld: "loadControlSettings pf (Some cd) st
                (Some [\<lparr>device_type = deviceType, instance_number = i,
                        control_options = Some [opt]\<rparr>])
               = Inr (st\<lparr>userSettings :=
                   (if deviceType = ''joystick''
                    then emptySettings
                      \<lparr>joystick := [(showNat (if i = 0 then 1 else i),
                          JObj [(case nonEmptyAttr (nodePath n) of Some p \<Rightarrow> p | None \<Rightarrow> target,
                                 JObj (loadedSettings pf opt))])]\<rparr>
                    else emptySettings
                      \<lparr>gamepad := [(case nonEmptyAttr (nodePath n) of Some p \<Rightarrow> p | None \<Rightarrow> target,
                                     JObj (loadedSettings pf opt))]\<rparr>)\<rparr>)"
    using h key by (auto simp: load_single_option setDeviceSettings_def)
  show "\<exists>n. find (\<lambda>x. nodeName x = target) (preorder (inversionSection inversionNode)) = Some n
           \<and> sectionType n = Some ''inversion''
           \<and> fullPathFor (Some cd) deviceType target
               = (case nonEmptyAttr (nodePath n) of Some p \<Rightarrow> p | None \<Rightarrow> target)
           \<and> loadControlSettings pf (Some cd) st
                (Some [\<lparr>device_type = deviceType, instance_number = i,
                        control_options = Some [opt]\<rparr>])
               = Inr (st\<lparr>userSettings :=
                   (if deviceType = ''joystick''
                    then emptySettings
                      \<lparr>joystick := [(showNat (if i = 0 then 1 else i),
                          JObj [(case nonEmptyAttr (nodePath n) of Some p \<Rightarrow> p | None \<Rightarrow> target,
                                 JObj (loadedSettings pf opt))])]\<rparr>
                    else emptySettings
                      \<lparr>gamepad := [(case nonEmptyAttr (nodePath n) of Some p \<Rightarrow> p | None \<Rightarrow> target,
                                     JObj (loadedSettings pf opt))]\<rparr>)\<rparr>)"
    using n sec key ld by blast
qed

theorem C10_loading_keys_inversion_section_witness:
  "fullPathFor
     (Some \<lparr>keyboardTree = None,
        gamepadTree = transformToSCHierarchy
          (Some (Node ''r'' ''r'' (Some ''r'') ''gamepad'' plainAttrs
             [Node ''inversion'' ''inversion'' (Some ''r.inversion'') ''gamepad'' plainAttrs
                [Node ''pitch'' ''pitch'' (Some ''r.inversion.pitch'') ''gamepad'' plainAttrs []
                   None False False None None None None]
                None False False None None None None]
             None False False None (Some 2) (Some (Finite (1 / 100))) (Some (Finite 2))))
          ''gamepad'',
        joystickTree = None\<rparr>)
     ''gamepad'' ''pitch'' = ''r.inversion.pitch''
   \<and> loadControlSettings exampleParseFloat
       (Some \<lparr>keyboardTree = None,
          gamepadTree = transformToSCHierarchy
            (Some (Node ''r'' ''r'' (Some ''r'') ''gamepad'' plainAttrs
               [Node ''inversion'' ''inversion'' (Some ''r.inversion'') ''gamepad'' plainAttrs
                  [Node ''pitch'' ''pitch'' (Some ''r.inversion.pitch'') ''gamepad'' plainAttrs []
                     None False False None None None None]
                  None False False None None None None]
               None False False None (Some 2) (Some (Finite (1 / 100))) (Some (Finite 2))))
            ''gamepad'',
          joystickTree = None\<rparr>)
       initialState
       (Some [\<lparr>device_type = ''gamepad'', instance_number = 1,
               control_options = Some [\<lparr>option_name = ''pitch'',
                  attributes = Some [(''invert'', ''1'')], curve_points = None\<rparr>]\<rparr>])
     = Inr (initialState\<lparr>userSettings := emptySettings
             \<lparr>gamepad := [(''r.inversion.pitch'', JObj [(''invert'', JBool True)])]\<rparr>\<rparr>)"
proof -
  let ?leaf = "Node ''pitch'' ''pitch'' (Some ''r.inversion.pitch'') ''gamepad'' plainAttrs []
                None False False None None None None"
  let ?inv = "Node ''inversion'' ''inversion'' (Some ''r.inversion'') ''gamepad'' plainAttrs
             [?leaf] None False False None None None None"
  let ?raw = "Node ''r'' ''r'' (Some ''r'') ''gamepad'' plainAttrs [?inv]
          None False False None (Some 2) (Some (Finite (1 / 100))) (Some (Finite 2))"
  let ?cd = "\<lparr>keyboardTree = None,
        gamepadTree = transformToSCHierarchy (Some ?raw) ''gamepad'', joystickTree = None\<rparr>"
  let ?opt = "\<lparr>option_name = ''pitch'', attributes = Some [(''invert'', ''1'')],
               curve_points = None\<rparr>"
  let ?found = "Node ''pitch'' ''pitch'' (Some ''r.inversion.pitch'') ''gamepad'' plainAttrs []
               (Some ''inversion'') False False None None None None"
  have f: "find (\<lambda>c. nodeName c = ''inversion'') (nodeChildren (contentNodeOf ?raw)) = Some ?inv"
    by (simp add: contentNodeOf_def)
  have tf: "treeFor ?cd ''gamepad'' = transformToSCHierarchy (Some ?raw) ''gamepad''"
    by (simp add: treeFor_def)
  have pre: "preorder (inversionSection ?inv)
      = [Node ''inversion'' ''@ui_COInversionSettings'' (Some ''r.inversion'') ''gamepad'' plainAttrs
            [?found] (Some ''inversion'') True False None None None None, ?found]"
    by (simp add: inversionSection_def jsonAttrs_def jsonNumber_def nonEmptyAttr_def)
  have mem: "''pitch'' \<in> set (map nodeName (preorder (inversionSection ?inv)))"
    unfolding pre by simp
  have fnd: "find (\<lambda>x. nodeName x = ''pitch'') (preorder (inversionSection ?inv)) = Some ?found"
    unfolding pre by simp
  have ls: "loadedSettings exampleParseFloat ?opt = [(''invert'', JBool True)]"
    by (simp add: loadedSettings_def)
  obtain n where n: "find (\<lambda>x. nodeName x = ''pitch'') (preorder (inversionSection ?inv)) = Some n"
    and key: "fullPathFor (Some ?cd) ''gamepad'' ''pitch''
               = (case nonEmptyAttr (nodePath n) of Some p \<Rightarrow> p | None \<Rightarrow> ''pitch'')"
    and ld: "loadControlSettings exampleParseFloat (Some ?cd) initialState
                (Some [\<lparr>device_type = ''gamepad'', instance_number = 1,
                        control_options = Some [?opt]\<rparr>])
               = Inr (initialState\<lparr>userSettings :=
                   (if ''gamepad'' = ''joystick''
                    then emptySettings
                      \<lparr>joystick := [(showNat (if (1::nat) = 0 then 1 else 1),
                          JObj [(case nonEmptyAttr (nodePath n) of Some p \<Rightarrow> p | None \<Rightarrow> ''pitch'',
                                 JObj (loadedSettings exampleParseFloat ?opt))])]\<rparr>
                    else emptySettings
                      \<lparr>gamepad := [(case nonEmptyAttr (nodePath n) of Some p \<Rightarrow> p | None \<Rightarrow> ''pitch'',
                                     JObj (loadedSettings exampleParseFloat ?opt))]\<rparr>)\<rparr>)"
    using C10_loading_keys_inversion_section
      [of "''pitch''" ?raw "''gamepad''" ?raw ?inv ?cd ?opt exampleParseFloat initialState 1]
      f tf mem
    by auto
  have nf: "n = ?found" using n fnd by simp
  have k: "fullPathFor (Some ?cd) ''gamepad'' ''pitch'' = ''r.inversion.pitch''"
    using key unfolding nf by (simp add: nonEmptyAttr_def)
  have l: "loadControlSettings exampleParseFloat (Some ?cd) initialState
                (Some [\<lparr>device_type = ''gamepad'', instance_number = 1,
                        control_options = Some [?opt]\<rparr>])
     = Inr (initialState\<lparr>userSettings := emptySettings
             \<lparr>gamepad := [(''r.inversion.pitch'', JObj [(''invert'', JBool True)])]\<rparr>\<rparr>)"
    using ld unfolding nf ls by (simp add: nonEmptyAttr_def)
  show ?thesis using k l by blast
qed

section \<open>Properties of the round trip\<close>





















end
